theory Spec2Isabelle
  imports Complex_Main "HOL-Library.AList"
begin

section \<open>Cells, labels and exceptions\<close>

text \<open>
  A cell of a data frame as the tabular reader delivers it: a missing marker (what
  \<^verbatim>\<open>pd.isna\<close> accepts), a string, or a number. The converter only copies and compares
  cells, so strings and numbers are kept by value. A missing marker is an object: the
  readers deliver NaN for a blank cell, a float that is not \<^verbatim>\<open>==\<close> to itself, and a dict
  looks a key up by identity before it tries \<^verbatim>\<open>==\<close>. Two missing markers are therefore
  the same dict key exactly when they are one and the same object. The number under
  \<open>Missing\<close> is the identity of the object: the blank cells of a frame may share one NaN
  object or have one each, as the reader made them, and equality of cells is the comparison
  of dict keys.
\<close>

datatype cell = Missing nat | Str string | Num real

text \<open>\<^verbatim>\<open>pd.isna\<close> on a scalar.\<close>

fun isna :: "cell \<Rightarrow> bool" where
  "isna (Missing i) = True"
| "isna (Str s) = False"
| "isna (Num r) = False"

text \<open>
  A column header is a string or a number. Python compares and hashes \<^verbatim>\<open>2020\<close> and
  \<^verbatim>\<open>2020.0\<close> alike, so a numeric header is kept by value.
\<close>

datatype label = Named string | Numeric real

text \<open>
  The exceptions of a run: the two \<^verbatim>\<open>Exception\<close>s of \<^verbatim>\<open>add_file\<close> with their message,
  the \<^verbatim>\<open>KeyError\<close> of a row without a column, the \<^verbatim>\<open>AttributeError\<close> of a reference
  without the method \<^verbatim>\<open>key\<close>, whatever a reader raises, and the three exceptions of the
  export: \<^verbatim>\<open>ValueError\<close> (the table exists), \<^verbatim>\<open>sqlite3.OperationalError\<close> (the database
  file cannot be opened, or the table has no column) and \<^verbatim>\<open>OverflowError\<close> (an integer
  beyond 64 bits).
\<close>

datatype exc = Exception string | KeyError label | AttributeError string | ReadError string
  | ValueError | OperationalError | OverflowError

text \<open>
  A call that raises leaves the object as it was mutated up to the raise: the result of a
  method of \<^verbatim>\<open>DB\<close> is either the exception together with the state at the raise, or the
  state at the return.
\<close>

type_synonym 'a result = "exc \<times> 'a + 'a"

text \<open>Python's \<^verbatim>\<open>int(x)\<close> on a finite number truncates towards zero.\<close>

definition py_int :: "real \<Rightarrow> int" where
  "py_int r = (if 0 \<le> r then \<lfloor>r\<rfloor> else \<lceil>r\<rceil>)"

text \<open>\<^verbatim>\<open>s.endswith(suf)\<close>\<close>

definition endswith :: "string \<Rightarrow> string \<Rightarrow> bool" where
  "endswith s suf = (length suf \<le> length s \<and> drop (length s - length suf) s = suf)"

section \<open>The dimension entities and the fact\<close>

record Country =
  country_name :: cell
  country_ISO2 :: cell
  country_ISO3 :: cell
  country_continent :: cell

text \<open>\<^verbatim>\<open>Country.__init__\<close>: a missing ISO code is replaced by the name.\<close>

definition Country_init :: "cell \<Rightarrow> cell \<Rightarrow> cell \<Rightarrow> cell \<Rightarrow> Country" where
  "Country_init name ISO2 ISO3 continent =
     \<lparr> country_name = name,
       country_ISO2 = (if isna ISO2 then name else ISO2),
       country_ISO3 = (if isna ISO3 then name else ISO3),
       country_continent = continent \<rparr>"

definition Country_key :: "Country \<Rightarrow> cell" where
  "Country_key c = country_ISO3 c"

record Technology =
  tech_name :: cell
  tech_ID :: cell
  tech_category :: cell

definition Technology_key :: "Technology \<Rightarrow> cell" where
  "Technology_key t = tech_name t"

record Variable =
  var_name :: cell
  var_short_name :: cell
  var_unit :: cell

definition Variable_key :: "Variable \<Rightarrow> cell" where
  "Variable_key v = var_name v"

text \<open>
  The three reference fields of an \<^verbatim>\<open>Entry\<close> are typed \<^verbatim>\<open>Technology | str\<close> (and
  likewise): the entity itself while in memory, its key once rewritten for the export.
\<close>

datatype 'a ref = Obj 'a | Key cell

record Entry =
  entry_technology :: "Technology ref"
  entry_country :: "Country ref"
  entry_variable :: "Variable ref"
  entry_power :: real
  entry_energy :: real
  entry_source :: cell
  entry_notes :: cell
  entry_currency :: cell
  entry_year :: int
  entry_price :: cell
  entry_key :: string

text \<open>
  The generated \<^verbatim>\<open>Entry.__init__\<close>. The default of \<^verbatim>\<open>_key\<close> is the value
  \<^verbatim>\<open>uuid4().hex\<close> had when the class body ran: one string \<open>dk\<close> for the whole run, which
  every construction that does not pass \<^verbatim>\<open>_key\<close> receives.
\<close>

definition Entry_init ::
  "string \<Rightarrow> Technology ref \<Rightarrow> Country ref \<Rightarrow> Variable ref \<Rightarrow> real \<Rightarrow> real \<Rightarrow>
   cell \<Rightarrow> cell \<Rightarrow> cell \<Rightarrow> int \<Rightarrow> cell \<Rightarrow> Entry" where
  "Entry_init dk technology country variable pwr energy source notes currency year price =
     \<lparr> entry_technology = technology, entry_country = country, entry_variable = variable,
       entry_power = pwr, entry_energy = energy, entry_source = source,
       entry_notes = notes, entry_currency = currency, entry_year = year,
       entry_price = price, entry_key = dk \<rparr>"

definition Entry_key :: "Entry \<Rightarrow> string" where
  "Entry_key e = entry_key e"

section \<open>The database object\<close>

text \<open>
  A Python dict keeps its keys in insertion order; assigning to a key that is present
  replaces the value in place and assigning to a new key adds the entry at the end: an
  association list under \<^const>\<open>AList.update\<close>. The keys are cells, compared as described
  above: equal strings and equal numbers are one key, missing markers are one key only when
  they are one object.
\<close>

record DB =
  countries :: "(cell \<times> Country) list"
  technologies :: "(cell \<times> Technology) list"
  variables :: "(cell \<times> Variable) list"
  entries :: "Entry list"

definition DB_init :: DB where
  "DB_init = \<lparr> countries = [], technologies = [], variables = [], entries = [] \<rparr>"

definition add_country :: "DB \<Rightarrow> Country \<Rightarrow> DB" where
  "add_country db country =
     db\<lparr> countries := AList.update (Country_key country) country (countries db) \<rparr>"

definition add_technology :: "DB \<Rightarrow> Technology \<Rightarrow> DB" where
  "add_technology db technology =
     db\<lparr> technologies := AList.update (Technology_key technology) technology (technologies db) \<rparr>"

definition add_variable :: "DB \<Rightarrow> Variable \<Rightarrow> DB" where
  "add_variable db variable =
     db\<lparr> variables := AList.update (Variable_key variable) variable (variables db) \<rparr>"

definition add_entry :: "DB \<Rightarrow> Entry \<Rightarrow> DB" where
  "add_entry db entry = db\<lparr> entries := entries db @ [entry] \<rparr>"

section \<open>Rows and data frames\<close>

text \<open>
  A row of a frame maps the frame's column labels to cells; \<^verbatim>\<open>row[k]\<close> raises
  \<^verbatim>\<open>KeyError\<close> on a label the row does not have.
\<close>

type_synonym series = "label \<rightharpoonup> cell"

record DataFrame =
  columns :: "label list"
  rows :: "series list"

definition getitem :: "series \<Rightarrow> label \<Rightarrow> exc + cell" where
  "getitem row k = (case row k of None \<Rightarrow> Inl (KeyError k) | Some c \<Rightarrow> Inr c)"

text \<open>The three candidates of a row; the keyword arguments are evaluated left to right.\<close>

definition row_technology :: "series \<Rightarrow> exc + Technology" where
  "row_technology row =
     (case getitem row (Named ''Technology'') of Inl e \<Rightarrow> Inl e | Inr n \<Rightarrow>
     (case getitem row (Named ''ID'') of Inl e \<Rightarrow> Inl e | Inr i \<Rightarrow>
     (case getitem row (Named ''Category'') of Inl e \<Rightarrow> Inl e | Inr c \<Rightarrow>
        Inr \<lparr> tech_name = n, tech_ID = i, tech_category = c \<rparr>)))"

definition row_country :: "series \<Rightarrow> exc + Country" where
  "row_country row =
     (case getitem row (Named ''Country'') of Inl e \<Rightarrow> Inl e | Inr n \<Rightarrow>
     (case getitem row (Named ''ISO2'') of Inl e \<Rightarrow> Inl e | Inr i2 \<Rightarrow>
     (case getitem row (Named ''ISO3'') of Inl e \<Rightarrow> Inl e | Inr i3 \<Rightarrow>
     (case getitem row (Named ''Continent'') of Inl e \<Rightarrow> Inl e | Inr ct \<Rightarrow>
        Inr (Country_init n i2 i3 ct)))))"

definition row_variable :: "series \<Rightarrow> exc + Variable" where
  "row_variable row =
     (case getitem row (Named ''Variable'') of Inl e \<Rightarrow> Inl e | Inr n \<Rightarrow>
     (case getitem row (Named ''Code'') of Inl e \<Rightarrow> Inl e | Inr s \<Rightarrow>
     (case getitem row (Named ''Unit'') of Inl e \<Rightarrow> Inl e | Inr u \<Rightarrow>
        Inr \<lparr> var_name = n, var_short_name = s, var_unit = u \<rparr>)))"

text \<open>\<^verbatim>\<open>[int(x) for x in df.columns.values if isinstance(x, (int, float))]\<close>\<close>

fun years_of :: "label list \<Rightarrow> int list" where
  "years_of [] = []"
| "years_of (Named s # ls) = years_of ls"
| "years_of (Numeric r # ls) = py_int r # years_of ls"

text \<open>The \<^verbatim>\<open>Entry(...)\<close> call of the inner loop, for a price that is present.\<close>

definition row_entry ::
  "string \<Rightarrow> series \<Rightarrow> Technology \<Rightarrow> Country \<Rightarrow> Variable \<Rightarrow> int \<Rightarrow> cell \<Rightarrow> exc + Entry" where
  "row_entry dk row tech country var year price =
     (case getitem row (Named ''Source'') of Inl e \<Rightarrow> Inl e | Inr src \<Rightarrow>
     (case getitem row (Named ''Notes'') of Inl e \<Rightarrow> Inl e | Inr nts \<Rightarrow>
     (case getitem row (Named ''Currency'') of Inl e \<Rightarrow> Inl e | Inr cur \<Rightarrow>
        Inr (Entry_init dk (Obj tech) (Obj country) (Obj var) 0 0 src nts cur year price))))"

text \<open>The inner loop \<^verbatim>\<open>for year in years\<close>.\<close>

fun add_years ::
  "string \<Rightarrow> series \<Rightarrow> Technology \<Rightarrow> Country \<Rightarrow> Variable \<Rightarrow> DB \<Rightarrow> int list \<Rightarrow> DB result" where
  "add_years dk row tech country var db [] = Inr db"
| "add_years dk row tech country var db (year # years) =
     (case getitem row (Numeric (of_int year)) of
        Inl e \<Rightarrow> Inl (e, db)
      | Inr price \<Rightarrow>
          if \<not> isna price then
            (case row_entry dk row tech country var year price of
               Inl e \<Rightarrow> Inl (e, db)
             | Inr entry \<Rightarrow> add_years dk row tech country var (add_entry db entry) years)
          else add_years dk row tech country var db years)"

text \<open>The body of the outer loop of \<^verbatim>\<open>DB.add_dataframe\<close>, for one row.\<close>

definition add_dataframe_row :: "string \<Rightarrow> label list \<Rightarrow> DB \<Rightarrow> series \<Rightarrow> DB result" where
  "add_dataframe_row dk cols db row =
     (case row_technology row of Inl e \<Rightarrow> Inl (e, db) | Inr tech \<Rightarrow>
     (case row_country row of Inl e \<Rightarrow> Inl (e, db) | Inr country \<Rightarrow>
     (case row_variable row of Inl e \<Rightarrow> Inl (e, db) | Inr var \<Rightarrow>
        add_years dk row tech country var
          (add_variable (add_country (add_technology db tech) country) var)
          (years_of cols))))"

fun add_rows :: "string \<Rightarrow> label list \<Rightarrow> DB \<Rightarrow> series list \<Rightarrow> DB result" where
  "add_rows dk cols db [] = Inr db"
| "add_rows dk cols db (row # rest) =
     (case add_dataframe_row dk cols db row of
        Inl x \<Rightarrow> Inl x
      | Inr db' \<Rightarrow> add_rows dk cols db' rest)"

definition add_dataframe :: "string \<Rightarrow> DB \<Rightarrow> DataFrame \<Rightarrow> DB result" where
  "add_dataframe dk db df = add_rows dk (columns df) db (rows df)"

section \<open>Files\<close>

text \<open>
  What the run sees of the outside: which paths exist, and what the two readers of the
  tabular library return for a path (a frame, or the exception they raise).
\<close>

record filesystem =
  path_exists :: "string \<Rightarrow> bool"
  read_csv :: "string \<Rightarrow> exc + DataFrame"
  read_excel :: "string \<Rightarrow> exc + DataFrame"

definition add_file :: "filesystem \<Rightarrow> string \<Rightarrow> DB \<Rightarrow> string \<Rightarrow> DB result" where
  "add_file fs dk db file_name =
     (if path_exists fs file_name then
        (if endswith file_name ''.csv'' then
           (case read_csv fs file_name of
              Inl e \<Rightarrow> Inl (e, db)
            | Inr df \<Rightarrow> add_dataframe dk db df)
         else if endswith file_name ''.xlsx'' then
           (case read_excel fs file_name of
              Inl e \<Rightarrow> Inl (e, db)
            | Inr df \<Rightarrow> add_dataframe dk db df)
         else Inl (Exception ''File type not supported'', db))
      else Inl (Exception ''File not exist'', db))"

section \<open>The export\<close>

text \<open>
  \<^verbatim>\<open>e.technology.key()\<close>: the key of the entity; a reference that is already a string
  has no method \<^verbatim>\<open>key\<close>.
\<close>

definition ref_key :: "('a \<Rightarrow> cell) \<Rightarrow> 'a ref \<Rightarrow> exc + cell" where
  "ref_key k r = (case r of Obj x \<Rightarrow> Inr (k x) | Key c \<Rightarrow> Inl (AttributeError ''key''))"

definition export_entry :: "string \<Rightarrow> Entry \<Rightarrow> exc + Entry" where
  "export_entry dk e =
     (case ref_key Technology_key (entry_technology e) of Inl x \<Rightarrow> Inl x | Inr t \<Rightarrow>
     (case ref_key Country_key (entry_country e) of Inl x \<Rightarrow> Inl x | Inr c \<Rightarrow>
     (case ref_key Variable_key (entry_variable e) of Inl x \<Rightarrow> Inl x | Inr v \<Rightarrow>
        Inr (Entry_init dk (Key t) (Key c) (Key v) (entry_power e) (entry_energy e)
               (entry_source e) (entry_notes e) (entry_currency e) (entry_year e)
               (entry_price e)))))"

text \<open>The list comprehension \<^verbatim>\<open>entries2\<close>.\<close>

fun entries2 :: "string \<Rightarrow> Entry list \<Rightarrow> exc + Entry list" where
  "entries2 dk [] = Inr []"
| "entries2 dk (e # es) =
     (case export_entry dk e of
        Inl x \<Rightarrow> Inl x
      | Inr e' \<Rightarrow> (case entries2 dk es of Inl x \<Rightarrow> Inl x | Inr es' \<Rightarrow> Inr (e' # es')))"

text \<open>
  What the export sees of the destination: whether \<^verbatim>\<open>sqlite3.connect\<close> opens (or
  creates) the database file at a path, and which tables the file at a path holds already.
\<close>

record storage =
  connects :: "string \<Rightarrow> bool"
  has_table :: "string \<Rightarrow> string \<Rightarrow> bool"

text \<open>The integers SQLite stores: 64 bits, signed.\<close>

definition int64 :: "int \<Rightarrow> bool" where
  "int64 i = (- (2 ^ 63) \<le> i \<and> i < 2 ^ 63)"

text \<open>
  \<^verbatim>\<open>df.to_sql(name, conn, index=False)\<close> on a frame built from a list of records, with
  the default \<^verbatim>\<open>if_exists='fail'\<close>. The writer raises \<^verbatim>\<open>ValueError\<close> when the database
  holds a table of that name; then it creates the table, which the engine refuses for a
  frame without columns (\<^verbatim>\<open>OperationalError\<close>), and a frame built from an empty list has
  no columns; then it inserts the rows, which the engine refuses for an integer beyond
  64 bits (\<^verbatim>\<open>OverflowError\<close>). \<open>binds\<close> tells of a row whether its integers can be
  stored. The result is the exception, if one is raised.
\<close>

definition to_sql :: "storage \<Rightarrow> string \<Rightarrow> string \<Rightarrow> ('a \<Rightarrow> bool) \<Rightarrow> 'a list \<Rightarrow> exc option" where
  "to_sql st path name binds df =
     (if has_table st path name then Some ValueError
      else if df = [] then Some OperationalError
      else if \<not> list_all binds df then Some OverflowError
      else None)"

text \<open>
  What \<^verbatim>\<open>save_sqlite\<close> has written when it returns: the path it connected to and the rows
  of the four tables, in the order of the frames they are written from.
\<close>

record sqlite_file =
  sqlite_path :: string
  country_table :: "Country list"
  vars_table :: "Variable list"
  tech_table :: "Technology list"
  entries_table :: "Entry list"

text \<open>
  \<^verbatim>\<open>DB.save_sqlite\<close>: the destination name, the three frames of the dictionaries (their
  values, in the order of the keys), the rewritten facts, the connection, and the four
  writes in turn. The years are Python integers, made by \<^verbatim>\<open>int(x)\<close> from the headers,
  and have no bound; the numbers in cells are kept by value and taken to be in the range
  of the number types of the readers, which the engine stores. The call returns what it
  has written or the exception it raised, together with the database object, to which it
  assigns nothing. What a call that raises leaves in the database file is not part of the
  model.
\<close>

definition save_sqlite ::
  "storage \<Rightarrow> string \<Rightarrow> DB \<Rightarrow> string \<Rightarrow> (exc + sqlite_file) \<times> DB" where
  "save_sqlite st dk db file_name =
     (let file_name' = (if \<not> endswith file_name ''.sqlite'' then file_name @ ''.sqlite''
                        else file_name);
          country_df = map snd (countries db);
          vars_df = map snd (variables db);
          tech_df = map snd (technologies db)
      in case entries2 dk (entries db) of
           Inl x \<Rightarrow> (Inl x, db)
         | Inr entries_df \<Rightarrow>
             if \<not> connects st file_name' then (Inl OperationalError, db)
             else
               (case to_sql st file_name' ''country'' (\<lambda>c. True) country_df of
                  Some x \<Rightarrow> (Inl x, db) | None \<Rightarrow>
               (case to_sql st file_name' ''vars'' (\<lambda>v. True) vars_df of
                  Some x \<Rightarrow> (Inl x, db) | None \<Rightarrow>
               (case to_sql st file_name' ''tech'' (\<lambda>t. True) tech_df of
                  Some x \<Rightarrow> (Inl x, db) | None \<Rightarrow>
               (case to_sql st file_name' ''entries'' (\<lambda>e. int64 (entry_year e)) entries_df of
                  Some x \<Rightarrow> (Inl x, db) | None \<Rightarrow>
                    (Inr \<lparr> sqlite_path = file_name', country_table = country_df,
                           vars_table = vars_df, tech_table = tech_df,
                           entries_table = entries_df \<rparr>, db))))))"

section \<open>The driver\<close>

text \<open>The loop \<^verbatim>\<open>for f_name in files: db.add_file(file_name=f_name)\<close>.\<close>

fun add_files :: "filesystem \<Rightarrow> string \<Rightarrow> DB \<Rightarrow> string list \<Rightarrow> DB result" where
  "add_files fs dk db [] = Inr db"
| "add_files fs dk db (f # rest) =
     (case add_file fs dk db f of
        Inl x \<Rightarrow> Inl x
      | Inr db' \<Rightarrow> add_files fs dk db' rest)"

text \<open>The script: a fresh \<^verbatim>\<open>DB\<close>, every file in turn, then the export.\<close>

definition run ::
  "filesystem \<Rightarrow> storage \<Rightarrow> string \<Rightarrow> string list \<Rightarrow> string \<Rightarrow> exc + sqlite_file" where
  "run fs st dk files out_name =
     (case add_files fs dk DB_init files of
        Inl (e, db) \<Rightarrow> Inl e
      | Inr db \<Rightarrow> fst (save_sqlite st dk db out_name))"

definition main :: "filesystem \<Rightarrow> storage \<Rightarrow> string \<Rightarrow> exc + sqlite_file" where
  "main fs st dk =
     run fs st dk
       [''GNESTE_Battery_Storage.xlsx'', ''GNESTE_Coal_Power.xlsx'', ''GNESTE_Gas_Power.xlsx'',
        ''GNESTE_Hydro_Power.xlsx'', ''GNESTE_Nuclear_Power.xlsx'', ''GNESTE_Solar_Power.xlsx'',
        ''GNESTE_Wind_Power.xlsx'']
       ''GNESTE.sqlite''"

section \<open>Derived notions\<close>

text \<open>
  The facts the inner loop appends for a row, as a list: what \<^const>\<open>add_years\<close> adds to
  \<^const>\<open>entries\<close>, whatever the database it runs on, together with the exception that cut
  the loop short, if one did.
\<close>

fun year_entries ::
  "string \<Rightarrow> series \<Rightarrow> Technology \<Rightarrow> Country \<Rightarrow> Variable \<Rightarrow> int list \<Rightarrow> exc \<times> Entry list + Entry list" where
  "year_entries dk row tech country var [] = Inr []"
| "year_entries dk row tech country var (year # years) =
     (case getitem row (Numeric (of_int year)) of
        Inl e \<Rightarrow> Inl (e, [])
      | Inr price \<Rightarrow>
          if \<not> isna price then
            (case row_entry dk row tech country var year price of
               Inl e \<Rightarrow> Inl (e, [])
             | Inr entry \<Rightarrow>
                 (case year_entries dk row tech country var years of
                    Inl (e, fs) \<Rightarrow> Inl (e, entry # fs)
                  | Inr fs \<Rightarrow> Inr (entry # fs)))
          else year_entries dk row tech country var years)"

text \<open>Appending a list of facts, and the three upserts of a row.\<close>

definition append_entries :: "DB \<Rightarrow> Entry list \<Rightarrow> DB" where
  "append_entries db fs = db\<lparr> entries := entries db @ fs \<rparr>"

definition upsert_dims :: "DB \<Rightarrow> Technology \<Rightarrow> Country \<Rightarrow> Variable \<Rightarrow> DB" where
  "upsert_dims db t c v = add_variable (add_country (add_technology db t) c) v"

text \<open>A fact whose three references are entities: what the row loop constructs.\<close>

definition obj_entry :: "Entry \<Rightarrow> bool" where
  "obj_entry e =
     (case entry_technology e of Key k \<Rightarrow> False | Obj t \<Rightarrow>
     (case entry_country e of Key k \<Rightarrow> False | Obj c \<Rightarrow>
     (case entry_variable e of Key k \<Rightarrow> False | Obj v \<Rightarrow> True)))"

section \<open>Example data\<close>

text \<open>
  A frame in the layout of the input files: the thirteen descriptive columns and two year
  columns. The first row is Testland without ISO codes, with a price for 2020 only; the
  second row names the same technology under another category.
\<close>

definition example_columns :: "label list" where
  "example_columns =
     [Named ''Technology'', Named ''ID'', Named ''Category'', Named ''Country'', Named ''ISO2'',
      Named ''ISO3'', Named ''Continent'', Named ''Variable'', Named ''Code'', Named ''Unit'',
      Named ''Source'', Named ''Notes'', Named ''Currency'', Numeric 2020, Numeric 2021]"

definition testland_row :: series where
  "testland_row = map_of
     [(Named ''Technology'', Str ''Solar PV''), (Named ''ID'', Str ''T1''),
      (Named ''Category'', Str ''Renewable''), (Named ''Country'', Str ''Testland''),
      (Named ''ISO2'', Missing 0), (Named ''ISO3'', Missing 1),
      (Named ''Continent'', Str ''Europe''),
      (Named ''Variable'', Str ''CAPEX''), (Named ''Code'', Str ''CX''),
      (Named ''Unit'', Str ''USD/kW''), (Named ''Source'', Str ''IEA''), (Named ''Notes'', Missing 2),
      (Named ''Currency'', Str ''USD''), (Numeric 2020, Num 5), (Numeric 2021, Missing 3)]"

definition second_row :: series where
  "second_row = map_of
     [(Named ''Technology'', Str ''Solar PV''), (Named ''ID'', Str ''T1''),
      (Named ''Category'', Str ''Solar''), (Named ''Country'', Str ''Otherland''),
      (Named ''ISO2'', Str ''OL''), (Named ''ISO3'', Str ''OTL''), (Named ''Continent'', Str ''Asia''),
      (Named ''Variable'', Str ''CAPEX''), (Named ''Code'', Str ''CX''),
      (Named ''Unit'', Str ''USD/kW''), (Named ''Source'', Str ''IRENA''), (Named ''Notes'', Missing 4),
      (Named ''Currency'', Str ''USD''), (Numeric 2020, Num 3), (Numeric 2021, Num 4)]"

definition example_frame :: DataFrame where
  "example_frame = \<lparr> columns = example_columns, rows = [testland_row, second_row] \<rparr>"

text \<open>
  A file system with two files: a workbook holding the example frame, and a file with an
  extension the converter does not read.
\<close>

definition example_fs :: filesystem where
  "example_fs =
     \<lparr> path_exists = (\<lambda>p. p = ''data.xlsx'' \<or> p = ''data.json''),
       read_csv = (\<lambda>p. Inl (ReadError p)),
       read_excel = (\<lambda>p. if p = ''data.xlsx'' then Inr example_frame else Inl (ReadError p)) \<rparr>"

text \<open>The database after the example frame has been added to a fresh one.\<close>

definition example_db :: DB where
  "example_db =
     (case add_dataframe ''k'' DB_init example_frame of Inl (e, db) \<Rightarrow> db | Inr db \<Rightarrow> db)"

text \<open>A destination where every path can be opened and no database holds a table yet.\<close>

definition example_storage :: storage where
  "example_storage = \<lparr> connects = (\<lambda>p. True), has_table = (\<lambda>p n. False) \<rparr>"

text \<open>
  A destination that differs from it away from \<^verbatim>\<open>GNESTE.sqlite\<close>: one path cannot be
  opened, and the database at another holds every table already.
\<close>

definition busy_storage :: storage where
  "busy_storage =
     \<lparr> connects = (\<lambda>p. p \<noteq> ''locked.sqlite''), has_table = (\<lambda>p n. p = ''old.sqlite'') \<rparr>"







text \<open>
  A frame whose column \<^verbatim>\<open>Technology\<close> was left blank: a column without any value is a
  column of floats, and each of its cells reaches the row loop as a NaN object of its own.
  The two rows differ in category, country and prices.
\<close>

definition blank_row1 :: series where
  "blank_row1 = map_of
     [(Named ''Technology'', Missing 10), (Named ''ID'', Str ''T1''),
      (Named ''Category'', Str ''Renewable''), (Named ''Country'', Str ''Testland''),
      (Named ''ISO2'', Str ''TL''), (Named ''ISO3'', Str ''TSL''),
      (Named ''Continent'', Str ''Europe''),
      (Named ''Variable'', Str ''CAPEX''), (Named ''Code'', Str ''CX''),
      (Named ''Unit'', Str ''USD/kW''), (Named ''Source'', Str ''IEA''),
      (Named ''Notes'', Str ''first''),
      (Named ''Currency'', Str ''USD''), (Numeric 2020, Num 5), (Numeric 2021, Num 6)]"

definition blank_row2 :: series where
  "blank_row2 = map_of
     [(Named ''Technology'', Missing 11), (Named ''ID'', Str ''T1''),
      (Named ''Category'', Str ''Solar''), (Named ''Country'', Str ''Otherland''),
      (Named ''ISO2'', Str ''OL''), (Named ''ISO3'', Str ''OTL''),
      (Named ''Continent'', Str ''Asia''),
      (Named ''Variable'', Str ''CAPEX''), (Named ''Code'', Str ''CX''),
      (Named ''Unit'', Str ''USD/kW''), (Named ''Source'', Str ''IRENA''),
      (Named ''Notes'', Str ''second''),
      (Named ''Currency'', Str ''USD''), (Numeric 2020, Num 3), (Numeric 2021, Num 4)]"

definition blank_frame :: DataFrame where
  "blank_frame = \<lparr> columns = example_columns, rows = [blank_row1, blank_row2] \<rparr>"

definition blank_db :: DB where
  "blank_db =
     (case add_dataframe ''k'' DB_init blank_frame of Inl (e, db) \<Rightarrow> db | Inr db \<Rightarrow> db)"

text \<open>What the export of that database writes (nothing, should the export raise).\<close>

definition blank_out :: sqlite_file where
  "blank_out =
     (case fst (save_sqlite example_storage ''k'' blank_db ''GNESTE'') of
        Inl e \<Rightarrow> \<lparr> sqlite_path = [], country_table = [], vars_table = [], tech_table = [],
                   entries_table = [] \<rparr>
      | Inr out \<Rightarrow> out)"

section \<open>Well-formed rows\<close>

text \<open>
  The columns every input file has, and the rows of a frame in that layout: the row has a
  cell under each of these columns and under each column of the frame, and a numeric
  header of the frame is a whole number (a year), so that \<^verbatim>\<open>int(x)\<close> names the column
  itself.
\<close>

definition required_columns :: "string list" where
  "required_columns =
     [''Technology'', ''ID'', ''Category'', ''Country'', ''ISO2'', ''ISO3'', ''Continent'',
      ''Variable'', ''Code'', ''Unit'', ''Source'', ''Notes'', ''Currency'']"

definition year_column :: "series \<Rightarrow> label \<Rightarrow> bool" where
  "year_column row l =
     (row l \<noteq> None \<and> (case l of Named s \<Rightarrow> True | Numeric r \<Rightarrow> of_int (py_int r) = r))"

definition valid_row :: "label list \<Rightarrow> series \<Rightarrow> bool" where
  "valid_row cols row =
     (list_all (\<lambda>n. row (Named n) \<noteq> None) required_columns \<and> list_all (year_column row) cols)"

text \<open>The number of year columns of the frame under which the row has a price.\<close>

definition has_price :: "series \<Rightarrow> label \<Rightarrow> bool" where
  "has_price row l =
     (case l of
        Named s \<Rightarrow> False
      | Numeric r \<Rightarrow> (case row l of None \<Rightarrow> False | Some c \<Rightarrow> \<not> isna c))"

definition populated_years :: "label list \<Rightarrow> series \<Rightarrow> nat" where
  "populated_years cols row = length (filter (has_price row) cols)"

section \<open>Reachable databases\<close>

text \<open>
  The databases a run can hold when it reaches the export: the fresh one, and the one any
  call of \<^const>\<open>add_dataframe\<close> on such a database leaves, whether the call returned or
  raised.
\<close>

inductive reachable :: "string \<Rightarrow> DB \<Rightarrow> bool" for dk :: string where
  fresh: "reachable dk DB_init"
| returned: "reachable dk db \<Longrightarrow> add_dataframe dk db df = Inr db' \<Longrightarrow> reachable dk db'"
| raised: "reachable dk db \<Longrightarrow> add_dataframe dk db df = Inl (e, db') \<Longrightarrow> reachable dk db'"

text \<open>
  Every entry of a dictionary sits under the key of its value, and every fact refers to
  three entities whose keys are keys of the dictionaries.
\<close>

definition keyed :: "DB \<Rightarrow> bool" where
  "keyed db =
     ((\<forall>(k, t) \<in> set (technologies db). k = Technology_key t) \<and>
      (\<forall>(k, c) \<in> set (countries db). k = Country_key c) \<and>
      (\<forall>(k, v) \<in> set (variables db). k = Variable_key v))"

definition resolved :: "DB \<Rightarrow> Entry \<Rightarrow> bool" where
  "resolved db e =
     (\<exists>t c v. entry_technology e = Obj t \<and> entry_country e = Obj c \<and> entry_variable e = Obj v \<and>
        Technology_key t \<in> fst ` set (technologies db) \<and>
        Country_key c \<in> fst ` set (countries db) \<and>
        Variable_key v \<in> fst ` set (variables db))"

definition integrity :: "DB \<Rightarrow> bool" where
  "integrity db = (keyed db \<and> (\<forall>e \<in> set (entries db). resolved db e))"

section \<open>Foreign keys in the exported tables\<close>

text \<open>
  The storage engine writes a missing marker as \<^verbatim>\<open>NULL\<close>, and in its comparisons
  \<^verbatim>\<open>NULL\<close> equals nothing, not even \<^verbatim>\<open>NULL\<close>. The reference field of an exported row
  resolves to a row of a table when the key it holds equals, in that sense, the value in
  the key column of the row.
\<close>

definition sql_eq :: "cell \<Rightarrow> cell \<Rightarrow> bool" where
  "sql_eq a b = (\<not> isna a \<and> \<not> isna b \<and> a = b)"

definition foreign_key :: "'a ref \<Rightarrow> cell list \<Rightarrow> bool" where
  "foreign_key r col = (case r of Obj x \<Rightarrow> False | Key k \<Rightarrow> list_ex (sql_eq k) col)"

section \<open>The facts of a row, of a frame and of a file\<close>

text \<open>
  The facts a row, a frame or a file contributes: the list of facts of the fresh database
  after the row, the frame or the file has been added to it.
\<close>

definition facts_of :: "DB result \<Rightarrow> Entry list" where
  "facts_of r = (case r of Inl (e, db) \<Rightarrow> entries db | Inr db \<Rightarrow> entries db)"

definition row_facts :: "string \<Rightarrow> label list \<Rightarrow> series \<Rightarrow> Entry list" where
  "row_facts dk cols row = facts_of (add_dataframe_row dk cols DB_init row)"

definition frame_facts :: "string \<Rightarrow> DataFrame \<Rightarrow> Entry list" where
  "frame_facts dk df = facts_of (add_dataframe dk DB_init df)"

definition file_facts :: "filesystem \<Rightarrow> string \<Rightarrow> string \<Rightarrow> Entry list" where
  "file_facts fs dk file_name = facts_of (add_file fs dk DB_init file_name)"

section \<open>Properties\<close>

subsection \<open>The loops as list functions\<close>

lemma append_entries_Nil [simp]: "append_entries db [] = db"
  by (simp add: append_entries_def)

lemma append_entries_add_entry: "append_entries (add_entry db e) fs = append_entries db (e # fs)"
  by (simp add: append_entries_def add_entry_def)

lemma append_entries_fields [simp]:
  "entries (append_entries db fs) = entries db @ fs"
  "technologies (append_entries db fs) = technologies db"
  "countries (append_entries db fs) = countries db"
  "variables (append_entries db fs) = variables db"
  by (simp_all add: append_entries_def)

lemma upsert_dims_fields [simp]:
  "entries (upsert_dims db t c v) = entries db"
  "technologies (upsert_dims db t c v) = AList.update (Technology_key t) t (technologies db)"
  "countries (upsert_dims db t c v) = AList.update (Country_key c) c (countries db)"
  "variables (upsert_dims db t c v) = AList.update (Variable_key v) v (variables db)"
  by (simp_all add: upsert_dims_def add_variable_def add_country_def add_technology_def)

lemma foldl_add_entry: "foldl add_entry db fs = append_entries db fs"
  by (induction fs arbitrary: db) (simp_all add: append_entries_add_entry)

lemma add_years_conv:
  "add_years dk row t c v db ys =
     (case year_entries dk row t c v ys of
        Inl (e, fs) \<Rightarrow> Inl (e, append_entries db fs)
      | Inr fs \<Rightarrow> Inr (append_entries db fs))"
proof (induction ys arbitrary: db)
  case Nil
  show ?case by simp
next
  case (Cons y ys)
  show ?case
    by (simp add: Cons.IH append_entries_add_entry split: sum.splits prod.splits)
qed

lemma add_dataframe_row_conv:
  assumes "row_technology row = Inr t" "row_country row = Inr c" "row_variable row = Inr v"
  shows "add_dataframe_row dk cols db row =
     (case year_entries dk row t c v (years_of cols) of
        Inl (e, fs) \<Rightarrow> Inl (e, append_entries (upsert_dims db t c v) fs)
      | Inr fs \<Rightarrow> Inr (append_entries (upsert_dims db t c v) fs))"
  using assms
  by (simp add: add_dataframe_row_def add_years_conv upsert_dims_def split: sum.splits prod.splits)

lemma add_dataframe_row_InrD:
  assumes "add_dataframe_row dk cols db row = Inr db'"
  obtains t c v fs where
    "row_technology row = Inr t" "row_country row = Inr c" "row_variable row = Inr v"
    "year_entries dk row t c v (years_of cols) = Inr fs"
    "db' = append_entries (upsert_dims db t c v) fs"
proof -
  from assms obtain t c v where
    r: "row_technology row = Inr t" "row_country row = Inr c" "row_variable row = Inr v"
    by (auto simp: add_dataframe_row_def split: sum.splits)
  from assms obtain fs where
    "year_entries dk row t c v (years_of cols) = Inr fs"
    "db' = append_entries (upsert_dims db t c v) fs"
    by (auto simp: add_dataframe_row_conv [OF r] split: sum.splits prod.splits)
  with r show thesis by (rule that)
qed

lemma add_dataframe_row_InlD:
  assumes "add_dataframe_row dk cols db row = Inl (e, db')"
  shows "db' = db \<or> (\<exists>t c v fs. row_technology row = Inr t \<and> row_country row = Inr c \<and>
            row_variable row = Inr v \<and> year_entries dk row t c v (years_of cols) = Inl (e, fs) \<and>
            db' = append_entries (upsert_dims db t c v) fs)"
  using assms
  by (auto simp: add_dataframe_row_def add_years_conv upsert_dims_def split: sum.splits prod.splits)

subsection \<open>Missing ISO codes\<close>

text \<open>
  Claim C4, as amended. A missing ISO2 cell makes the stored ISO2 the country name, a
  missing ISO3 cell makes the stored ISO3 the country name, and when the name itself is
  present neither stored code is missing. \<^const>\<open>Country_init\<close> is a total function: the
  construction has no failing branch.
\<close>

theorem Country_init_missing_iso:
  "(isna ISO2 \<longrightarrow> country_ISO2 (Country_init name ISO2 ISO3 continent) = name) \<and>
   (isna ISO3 \<longrightarrow> country_ISO3 (Country_init name ISO2 ISO3 continent) = name) \<and>
   (\<not> isna name \<longrightarrow> \<not> isna (country_ISO2 (Country_init name ISO2 ISO3 continent)) \<and>
                      \<not> isna (country_ISO3 (Country_init name ISO2 ISO3 continent)))"
  by (simp add: Country_init_def)

text \<open>The first scenario of the specification: Testland without ISO codes.\<close>

theorem Country_init_missing_iso_witness:
  "isna (Missing 0) \<and> isna (Missing 1) \<and> \<not> isna (Str ''Testland'') \<and>
   Country_init (Str ''Testland'') (Missing 0) (Missing 1) (Str ''Europe'') =
     \<lparr> country_name = Str ''Testland'', country_ISO2 = Str ''Testland'',
       country_ISO3 = Str ''Testland'', country_continent = Str ''Europe'' \<rparr>"
  using Country_init_missing_iso [of "Missing 0" "Str ''Testland''" "Missing 1" "Str ''Europe''"]
  by (simp add: Country_init_def)

text \<open>
  When the country name is missing as well, the fallback stores the missing marker in both
  codes: the unconditional reading of claim C4 fails.
\<close>

theorem Country_init_missing_name_counterexample:
  "isna (country_ISO2 (Country_init (Missing 0) (Missing 1) (Missing 2) (Str ''Europe''))) \<and>
   isna (country_ISO3 (Country_init (Missing 0) (Missing 1) (Missing 2) (Str ''Europe'')))"
  by (simp add: Country_init_def)

subsection \<open>Dictionaries as association lists\<close>






subsection \<open>Last write wins\<close>





lemma blank_db_run: "add_dataframe ''k'' DB_init blank_frame = Inr blank_db"
  by (simp add: blank_db_def add_dataframe_def blank_frame_def example_columns_def
      add_dataframe_row_def row_technology_def row_country_def row_variable_def row_entry_def
      getitem_def blank_row1_def blank_row2_def py_int_def)



subsection \<open>The export\<close>

lemma export_entry_InrD:
  assumes "export_entry dk e = Inr e'"
  shows "\<exists>t c v. entry_technology e = Obj t \<and> entry_country e = Obj c \<and>
           entry_variable e = Obj v \<and>
           e' = Entry_init dk (Key (Technology_key t)) (Key (Country_key c)) (Key (Variable_key v))
                  (entry_power e) (entry_energy e) (entry_source e) (entry_notes e)
                  (entry_currency e) (entry_year e) (entry_price e)"
  using assms
  by (auto simp: export_entry_def ref_key_def split: ref.splits sum.splits)

lemma export_entry_obj:
  "obj_entry e \<Longrightarrow> \<exists>e'. export_entry dk e = Inr e'"
  by (auto simp: obj_entry_def export_entry_def ref_key_def split: ref.splits)

lemma entries2_Inr:
  "entries2 dk es = Inr es' \<Longrightarrow> list_all2 (\<lambda>e e'. export_entry dk e = Inr e') es es'"
proof (induction es arbitrary: es')
  case Nil
  then show ?case by simp
next
  case (Cons e es)
  then show ?case by (auto split: sum.splits)
qed

lemma entries2_obj:
  "list_all obj_entry es \<Longrightarrow> \<exists>es'. entries2 dk es = Inr es'"
proof (induction es)
  case Nil
  show ?case by simp
next
  case (Cons e es)
  from Cons.prems obtain e' where "export_entry dk e = Inr e'"
    using export_entry_obj by auto
  moreover from Cons obtain es' where "entries2 dk es = Inr es'" by auto
  ultimately show ?case by simp
qed

lemma exported_years:
  "list_all2 (\<lambda>e e'. export_entry dk e = Inr e') es es' \<Longrightarrow>
     map entry_year es' = map entry_year es"
proof (induction rule: list_all2_induct)
  case Nil
  show ?case by simp
next
  case (Cons e es e' es')
  from export_entry_InrD [OF Cons.hyps(1)] have "entry_year e' = entry_year e"
    by (auto simp: Entry_init_def)
  with Cons.IH show ?case by simp
qed

lemma to_sql_NoneD:
  "to_sql st path name binds df = None \<Longrightarrow>
     \<not> has_table st path name \<and> df \<noteq> [] \<and> list_all binds df"
  by (simp add: to_sql_def split: if_splits)

lemma to_sql_None:
  "\<not> has_table st path name \<Longrightarrow> df \<noteq> [] \<Longrightarrow> list_all binds df \<Longrightarrow>
     to_sql st path name binds df = None"
  by (simp add: to_sql_def)

lemma save_sqlite_InrD:
  assumes "fst (save_sqlite st dk db file_name) = Inr out"
  shows "entries2 dk (entries db) = Inr (entries_table out) \<and>
         sqlite_path out = (if endswith file_name ''.sqlite'' then file_name
                            else file_name @ ''.sqlite'') \<and>
         country_table out = map snd (countries db) \<and>
         vars_table out = map snd (variables db) \<and>
         tech_table out = map snd (technologies db) \<and>
         connects st (sqlite_path out)"
  using assms
  by (auto simp: save_sqlite_def Let_def split: sum.splits option.splits if_splits)

lemma save_sqlite_db: "snd (save_sqlite st dk db file_name) = db"
  by (simp add: save_sqlite_def Let_def split: sum.splits option.splits)

text \<open>
  The export returns when the facts refer to entities, the database file opens and holds
  none of the four tables, no dictionary and no list of facts is empty, and the years fit
  in 64 bits.
\<close>

lemma save_sqlite_succeeds:
  assumes obj: "list_all obj_entry (entries db)"
    and dest: "p = (if \<not> endswith file_name ''.sqlite'' then file_name @ ''.sqlite''
                     else file_name)"
    and st: "connects st p" "\<not> has_table st p ''country''" "\<not> has_table st p ''vars''"
      "\<not> has_table st p ''tech''" "\<not> has_table st p ''entries''"
    and dims: "countries db \<noteq> []" "variables db \<noteq> []" "technologies db \<noteq> []"
    and facts: "entries db \<noteq> []" "list_all int64 (map entry_year (entries db))"
  shows "\<exists>out. fst (save_sqlite st dk db file_name) = Inr out"
proof -
  from obj obtain es where es: "entries2 dk (entries db) = Inr es"
    using entries2_obj by blast
  from entries2_Inr [OF es] have
    all2: "list_all2 (\<lambda>e e'. export_entry dk e = Inr e') (entries db) es" .
  from list_all2_lengthD [OF all2] facts(1) have ne: "es \<noteq> []" by auto
  from exported_years [OF all2] facts(2) have "list_all int64 (map entry_year es)" by simp
  then have yrs: "list_all (\<lambda>e. int64 (entry_year e)) es"
    by (simp add: list_all_iff)
  have c: "to_sql st p ''country'' (\<lambda>c. True) (map snd (countries db)) = None"
    using st(2) dims(1) by (simp add: to_sql_def list_all_iff)
  have v: "to_sql st p ''vars'' (\<lambda>v. True) (map snd (variables db)) = None"
    using st(3) dims(2) by (simp add: to_sql_def list_all_iff)
  have t: "to_sql st p ''tech'' (\<lambda>t. True) (map snd (technologies db)) = None"
    using st(4) dims(3) by (simp add: to_sql_def list_all_iff)
  have e: "to_sql st p ''entries'' (\<lambda>e. int64 (entry_year e)) es = None"
    using st(5) ne yrs by (rule to_sql_None)
  from es st(1) c v t e show ?thesis
    by (simp add: save_sqlite_def Let_def dest [symmetric])
qed

text \<open>
  And only then: an export that returns has passed the rewriting of the facts, the
  connection and the four writes. In particular the export of the fresh database raises,
  and so does the export of a database without facts.
\<close>

lemma export_entry_Inr_obj: "export_entry dk e = Inr e' \<Longrightarrow> obj_entry e"
  by (auto simp: export_entry_def ref_key_def obj_entry_def split: ref.splits sum.splits)

lemma save_sqlite_returnsD:
  assumes out: "fst (save_sqlite st dk db file_name) = Inr out"
    and dest: "p = (if \<not> endswith file_name ''.sqlite'' then file_name @ ''.sqlite''
                     else file_name)"
  shows "list_all obj_entry (entries db)"
    and "connects st p \<and> \<not> has_table st p ''country'' \<and> \<not> has_table st p ''vars'' \<and>
         \<not> has_table st p ''tech'' \<and> \<not> has_table st p ''entries''"
    and "countries db \<noteq> [] \<and> variables db \<noteq> [] \<and> technologies db \<noteq> [] \<and> entries db \<noteq> []"
    and "list_all int64 (map entry_year (entries db))"
proof -
  from out obtain es where es: "entries2 dk (entries db) = Inr es"
    by (cases "entries2 dk (entries db)") (simp_all add: save_sqlite_def Let_def)
  from entries2_Inr [OF es] have
    all2: "list_all2 (\<lambda>e e'. export_entry dk e = Inr e') (entries db) es" .
  have "obj_entry e" if "e \<in> set (entries db)" for e
  proof -
    from that obtain i where i: "i < length (entries db)" "entries db ! i = e"
      by (auto simp: in_set_conv_nth)
    from list_all2_nthD [OF all2 i(1)] i(2) show ?thesis
      by (auto intro: export_entry_Inr_obj)
  qed
  then show "list_all obj_entry (entries db)" by (simp add: list_all_iff)
  from out es have w: "connects st p"
    "to_sql st p ''country'' (\<lambda>c. True) (map snd (countries db)) = None"
    "to_sql st p ''vars'' (\<lambda>v. True) (map snd (variables db)) = None"
    "to_sql st p ''tech'' (\<lambda>t. True) (map snd (technologies db)) = None"
    "to_sql st p ''entries'' (\<lambda>e. int64 (entry_year e)) es = None"
    unfolding save_sqlite_def Let_def dest [symmetric]
    by (simp_all split: if_splits option.splits)
  note c = to_sql_NoneD [OF w(2)] and v = to_sql_NoneD [OF w(3)]
    and t = to_sql_NoneD [OF w(4)] and e = to_sql_NoneD [OF w(5)]
  from w(1) c v t e
  show "connects st p \<and> \<not> has_table st p ''country'' \<and> \<not> has_table st p ''vars'' \<and>
         \<not> has_table st p ''tech'' \<and> \<not> has_table st p ''entries''" by simp
  from e list_all2_lengthD [OF all2] have "entries db \<noteq> []" by auto
  with c v t
  show "countries db \<noteq> [] \<and> variables db \<noteq> [] \<and> technologies db \<noteq> [] \<and> entries db \<noteq> []"
    by simp
  from e have "list_all int64 (map entry_year es)" by (simp add: list_all_iff)
  with exported_years [OF all2] show "list_all int64 (map entry_year (entries db))" by simp
qed

lemma save_sqlite_fresh_raises: "\<exists>e. fst (save_sqlite st dk DB_init file_name) = Inl e"
proof (cases "fst (save_sqlite st dk DB_init file_name)")
  case (Inl e)
  then show ?thesis by blast
next
  case (Inr out)
  from save_sqlite_returnsD(3) [OF Inr refl] show ?thesis by (simp add: DB_init_def)
qed

lemma to_sql_local:
  "has_table st' p name = has_table st p name \<Longrightarrow>
     to_sql st' p name binds df = to_sql st p name binds df"
  by (simp add: to_sql_def)

lemma save_sqlite_local:
  assumes c: "connects st' p = connects st p"
    and t: "\<And>n. has_table st' p n = has_table st p n"
    and p: "p = (if \<not> endswith file_name ''.sqlite'' then file_name @ ''.sqlite''
                  else file_name)"
  shows "save_sqlite st' dk db file_name = save_sqlite st dk db file_name"
  unfolding save_sqlite_def Let_def p [symmetric]
  by (simp only: c to_sql_local [OF t])

lemma example_storage_fresh:
  "connects example_storage p" "\<not> has_table example_storage p n"
  by (simp_all add: example_storage_def)

lemma endswith_append: "endswith (s @ suf) suf"
  by (simp add: endswith_def)

text \<open>
  Claim C8. A destination name that does not end with \<^verbatim>\<open>.sqlite\<close> is treated as the name
  with \<^verbatim>\<open>.sqlite\<close> appended: \<^const>\<open>save_sqlite\<close> does with the one what it does with the
  other, whatever the destination holds. The only path at which \<^const>\<open>save_sqlite\<close> looks
  at the destination is the name itself if that ends with \<^verbatim>\<open>.sqlite\<close>, and the name with
  \<^verbatim>\<open>.sqlite\<close> appended otherwise: two destinations that agree at that path get the same
  outcome. When \<^const>\<open>save_sqlite\<close> returns, that path is the database file it has opened
  and written, and it ends with \<^verbatim>\<open>.sqlite\<close>.
\<close>

theorem save_sqlite_file_name:
  "(\<not> endswith file_name ''.sqlite'' \<longrightarrow>
      save_sqlite st dk db file_name = save_sqlite st dk db (file_name @ ''.sqlite'')) \<and>
   (p = (if endswith file_name ''.sqlite'' then file_name else file_name @ ''.sqlite'') \<and>
    connects st' p = connects st p \<and> (\<forall>n. has_table st' p n = has_table st p n) \<longrightarrow>
      save_sqlite st' dk db file_name = save_sqlite st dk db file_name) \<and>
   (fst (save_sqlite st dk db file_name) = Inr out \<longrightarrow>
      connects st (sqlite_path out) \<and>
      (endswith file_name ''.sqlite'' \<longrightarrow> sqlite_path out = file_name) \<and>
      (\<not> endswith file_name ''.sqlite'' \<longrightarrow> sqlite_path out = file_name @ ''.sqlite'') \<and>
      endswith (sqlite_path out) ''.sqlite'')"
proof -
  have local: "save_sqlite st' dk db file_name = save_sqlite st dk db file_name"
    if p: "p = (if endswith file_name ''.sqlite'' then file_name else file_name @ ''.sqlite'')"
      and c: "connects st' p = connects st p"
      and t: "\<forall>n. has_table st' p n = has_table st p n"
  proof -
    from p have "p = (if \<not> endswith file_name ''.sqlite'' then file_name @ ''.sqlite''
                  else file_name)" by simp
    with c t show ?thesis by (intro save_sqlite_local) simp_all
  qed
  have same: "save_sqlite st dk db file_name = save_sqlite st dk db (file_name @ ''.sqlite'')"
    if "\<not> endswith file_name ''.sqlite''"
    using that by (simp add: save_sqlite_def endswith_append)
  have path: "connects st (sqlite_path out) \<and>
      (endswith file_name ''.sqlite'' \<longrightarrow> sqlite_path out = file_name) \<and>
      (\<not> endswith file_name ''.sqlite'' \<longrightarrow> sqlite_path out = file_name @ ''.sqlite'') \<and>
      endswith (sqlite_path out) ''.sqlite''"
    if out: "fst (save_sqlite st dk db file_name) = Inr out"
  proof -
    note tabs = save_sqlite_InrD [OF out]
    from tabs have p: "sqlite_path out = (if endswith file_name ''.sqlite'' then file_name
                            else file_name @ ''.sqlite'')" by blast
    from tabs have c: "connects st (sqlite_path out)" by blast
    from p have "endswith (sqlite_path out) ''.sqlite''"
      by (simp add: endswith_append)
    with p c show ?thesis by auto
  qed
  from same local path show ?thesis by blast
qed

text \<open>
  Claim C9. When \<^const>\<open>save_sqlite\<close> exports, the table of facts has one row per fact of the
  list, in place; the row has the power, energy, source, notes, currency, year and price
  of the fact, and in each of the three reference fields the key of the entity the fact
  refers to. The database the call returns is the database it was given.
\<close>

theorem save_sqlite_rewrites_references_only:
  assumes "fst (save_sqlite st dk db file_name) = Inr out"
  shows "snd (save_sqlite st dk db file_name) = db \<and>
         length (entries_table out) = length (entries db) \<and>
         (\<forall>i < length (entries db).
            entry_power (entries_table out ! i) = entry_power (entries db ! i) \<and>
            entry_energy (entries_table out ! i) = entry_energy (entries db ! i) \<and>
            entry_source (entries_table out ! i) = entry_source (entries db ! i) \<and>
            entry_notes (entries_table out ! i) = entry_notes (entries db ! i) \<and>
            entry_currency (entries_table out ! i) = entry_currency (entries db ! i) \<and>
            entry_year (entries_table out ! i) = entry_year (entries db ! i) \<and>
            entry_price (entries_table out ! i) = entry_price (entries db ! i) \<and>
            (\<exists>t c v. entry_technology (entries db ! i) = Obj t \<and>
                     entry_country (entries db ! i) = Obj c \<and>
                     entry_variable (entries db ! i) = Obj v \<and>
                     entry_technology (entries_table out ! i) = Key (Technology_key t) \<and>
                     entry_country (entries_table out ! i) = Key (Country_key c) \<and>
                     entry_variable (entries_table out ! i) = Key (Variable_key v)))"
proof -
  from save_sqlite_InrD [OF assms]
  have "entries2 dk (entries db) = Inr (entries_table out)" by simp
  then have all2: "list_all2 (\<lambda>e e'. export_entry dk e = Inr e') (entries db) (entries_table out)"
    by (rule entries2_Inr)
  then have len: "length (entries_table out) = length (entries db)"
    by (simp add: list_all2_lengthD)
  have each: "entry_power (entries_table out ! i) = entry_power (entries db ! i) \<and>
            entry_energy (entries_table out ! i) = entry_energy (entries db ! i) \<and>
            entry_source (entries_table out ! i) = entry_source (entries db ! i) \<and>
            entry_notes (entries_table out ! i) = entry_notes (entries db ! i) \<and>
            entry_currency (entries_table out ! i) = entry_currency (entries db ! i) \<and>
            entry_year (entries_table out ! i) = entry_year (entries db ! i) \<and>
            entry_price (entries_table out ! i) = entry_price (entries db ! i) \<and>
            (\<exists>t c v. entry_technology (entries db ! i) = Obj t \<and>
                     entry_country (entries db ! i) = Obj c \<and>
                     entry_variable (entries db ! i) = Obj v \<and>
                     entry_technology (entries_table out ! i) = Key (Technology_key t) \<and>
                     entry_country (entries_table out ! i) = Key (Country_key c) \<and>
                     entry_variable (entries_table out ! i) = Key (Variable_key v))"
    if "i < length (entries db)" for i
  proof -
    from all2 that have "export_entry dk (entries db ! i) = Inr (entries_table out ! i)"
      by (rule list_all2_nthD)
    from export_entry_InrD [OF this] show ?thesis
      by (auto simp: Entry_init_def)
  qed
  from save_sqlite_db len each show ?thesis by blast
qed

subsection \<open>The example database\<close>

lemma example_db_run: "add_dataframe ''k'' DB_init example_frame = Inr example_db"
  by (simp add: example_db_def add_dataframe_def example_frame_def example_columns_def
      add_dataframe_row_def row_technology_def row_country_def row_variable_def row_entry_def
      getitem_def testland_row_def second_row_def py_int_def)

lemma example_db_years:
  "map entry_year (entries example_db) = [2020, 2020, 2021]"
  by (simp add: example_db_def add_dataframe_def example_frame_def example_columns_def
      add_dataframe_row_def row_technology_def row_country_def row_variable_def row_entry_def
      getitem_def testland_row_def second_row_def py_int_def add_entry_def DB_init_def
      add_technology_def add_country_def add_variable_def Entry_init_def)

lemma example_db_prices:
  "map entry_price (entries example_db) = [Num 5, Num 3, Num 4]"
  by (simp add: example_db_def add_dataframe_def example_frame_def example_columns_def
      add_dataframe_row_def row_technology_def row_country_def row_variable_def row_entry_def
      getitem_def testland_row_def second_row_def py_int_def add_entry_def DB_init_def
      add_technology_def add_country_def add_variable_def Entry_init_def)

lemma example_db_obj:
  "list_all obj_entry (entries example_db)"
  by (simp add: example_db_def add_dataframe_def example_frame_def example_columns_def
      add_dataframe_row_def row_technology_def row_country_def row_variable_def row_entry_def
      getitem_def testland_row_def second_row_def py_int_def add_entry_def DB_init_def
      add_technology_def add_country_def add_variable_def Entry_init_def obj_entry_def)

lemma example_db_dims:
  "countries example_db \<noteq> []" "variables example_db \<noteq> []" "technologies example_db \<noteq> []"
  by (simp_all add: example_db_def add_dataframe_def example_frame_def example_columns_def
      add_dataframe_row_def row_technology_def row_country_def row_variable_def row_entry_def
      getitem_def testland_row_def second_row_def py_int_def add_entry_def DB_init_def
      add_technology_def add_country_def add_variable_def)

lemma example_db_length: "length (entries example_db) = 3"
proof -
  have "length (map entry_year (entries example_db)) = 3"
    by (simp only: example_db_years) simp
  then show ?thesis by simp
qed

lemma example_db_exports:
  "\<exists>out. fst (save_sqlite example_storage ''k'' example_db file_name) = Inr out"
proof -
  from example_db_length have ne: "entries example_db \<noteq> []" by auto
  have yrs: "list_all int64 (map entry_year (entries example_db))"
    by (simp only: example_db_years) (simp add: int64_def)
  show ?thesis
    by (rule save_sqlite_succeeds [OF example_db_obj refl example_storage_fresh(1)
          example_storage_fresh(2) example_storage_fresh(2) example_storage_fresh(2)
          example_storage_fresh(2) example_db_dims ne yrs])
qed

text \<open>
  The fifth scenario of the specification: the example database exported to a fresh
  destination, under a name without the extension and under the name with it.
\<close>

theorem save_sqlite_file_name_witness:
  "\<not> endswith ''GNESTE'' ''.sqlite'' \<and> endswith ''GNESTE.sqlite'' ''.sqlite'' \<and>
   save_sqlite example_storage ''k'' example_db ''GNESTE'' =
     save_sqlite example_storage ''k'' example_db ''GNESTE.sqlite'' \<and>
   connects busy_storage ''GNESTE.sqlite'' = connects example_storage ''GNESTE.sqlite'' \<and>
   has_table busy_storage ''GNESTE.sqlite'' = has_table example_storage ''GNESTE.sqlite'' \<and>
   save_sqlite busy_storage ''k'' example_db ''GNESTE'' =
     save_sqlite example_storage ''k'' example_db ''GNESTE'' \<and>
   (\<exists>out. fst (save_sqlite example_storage ''k'' example_db ''GNESTE'') = Inr out \<and>
          sqlite_path out = ''GNESTE.sqlite'' \<and> length (entries_table out) = 3) \<and>
   (\<exists>out. fst (save_sqlite example_storage ''k'' example_db ''GNESTE.sqlite'') = Inr out \<and>
          sqlite_path out = ''GNESTE.sqlite'' \<and> length (entries_table out) = 3)"
proof -
  have n: "\<not> endswith ''GNESTE'' ''.sqlite''" "endswith ''GNESTE.sqlite'' ''.sqlite''"
    by (simp_all add: endswith_def)
  from example_db_exports obtain o1 where
    o1: "fst (save_sqlite example_storage ''k'' example_db ''GNESTE'') = Inr o1" by blast
  from example_db_exports obtain o2 where
    o2: "fst (save_sqlite example_storage ''k'' example_db ''GNESTE.sqlite'') = Inr o2" by blast
  note a = save_sqlite_file_name [where file_name = "''GNESTE''" and st = example_storage
      and dk = "''k''" and db = example_db and out = o1 and st' = busy_storage
      and p = "''GNESTE.sqlite''"]
  note b = save_sqlite_file_name [where file_name = "''GNESTE.sqlite''" and st = example_storage
      and dk = "''k''" and db = example_db and out = o2 and st' = busy_storage
      and p = "''GNESTE.sqlite''"]
  have agree: "connects busy_storage ''GNESTE.sqlite'' = connects example_storage ''GNESTE.sqlite''"
    "has_table busy_storage ''GNESTE.sqlite'' = has_table example_storage ''GNESTE.sqlite''"
    by (simp_all add: busy_storage_def example_storage_def)
  have "''GNESTE.sqlite'' = (if endswith ''GNESTE'' ''.sqlite'' then ''GNESTE''
      else ''GNESTE'' @ ''.sqlite'') \<and>
    connects busy_storage ''GNESTE.sqlite'' = connects example_storage ''GNESTE.sqlite'' \<and>
    (\<forall>n. has_table busy_storage ''GNESTE.sqlite'' n =
          has_table example_storage ''GNESTE.sqlite'' n)"
    using n(1) agree by simp
  with conjunct1 [OF conjunct2 [OF a]]
  have busy: "save_sqlite busy_storage ''k'' example_db ''GNESTE'' =
     save_sqlite example_storage ''k'' example_db ''GNESTE''" by (rule mp)
  from a n(1) have "save_sqlite example_storage ''k'' example_db ''GNESTE'' =
     save_sqlite example_storage ''k'' example_db (''GNESTE'' @ ''.sqlite'')" by blast
  then have same: "save_sqlite example_storage ''k'' example_db ''GNESTE'' =
     save_sqlite example_storage ''k'' example_db ''GNESTE.sqlite''" by simp
  from a n(1) o1 have "sqlite_path o1 = ''GNESTE'' @ ''.sqlite''" by blast
  then have p1: "sqlite_path o1 = ''GNESTE.sqlite''" by simp
  from b n(2) o2 have p2: "sqlite_path o2 = ''GNESTE.sqlite''" by blast
  from entries2_Inr [of "''k''" "entries example_db" "entries_table o1"]
    save_sqlite_InrD [OF o1] example_db_length
  have l1: "length (entries_table o1) = 3" by (auto dest: list_all2_lengthD)
  from entries2_Inr [of "''k''" "entries example_db" "entries_table o2"]
    save_sqlite_InrD [OF o2] example_db_length
  have l2: "length (entries_table o2) = 3" by (auto dest: list_all2_lengthD)
  from o1 p1 l1 have e1: "\<exists>out. fst (save_sqlite example_storage ''k'' example_db ''GNESTE'') = Inr out \<and>
          sqlite_path out = ''GNESTE.sqlite'' \<and> length (entries_table out) = 3" by blast
  from o2 p2 l2 have e2: "\<exists>out. fst (save_sqlite example_storage ''k'' example_db ''GNESTE.sqlite'') = Inr out \<and>
          sqlite_path out = ''GNESTE.sqlite'' \<and> length (entries_table out) = 3" by blast
  show ?thesis
    by (intro conjI) (rule n same agree busy e1 e2)+
qed

text \<open>The export of the example database keeps the first price and the third year.\<close>

theorem save_sqlite_rewrites_references_only_witness:
  "\<exists>out. fst (save_sqlite example_storage ''k'' example_db ''GNESTE'') = Inr out \<and>
         snd (save_sqlite example_storage ''k'' example_db ''GNESTE'') = example_db \<and>
         length (entries_table out) = 3 \<and>
         entry_price (entries_table out ! 0) = Num 5 \<and>
         entry_year (entries_table out ! 2) = 2021"
proof -
  from example_db_exports obtain out where
    out: "fst (save_sqlite example_storage ''k'' example_db ''GNESTE'') = Inr out" by blast
  note len = example_db_length
  have "map entry_price (entries example_db) ! 0 = Num 5"
    by (simp only: example_db_prices) simp
  with len have p0: "entry_price (entries example_db ! 0) = Num 5" by simp
  have "map entry_year (entries example_db) ! 2 = 2021"
    by (simp only: example_db_years) simp
  with len have y2: "entry_year (entries example_db ! 2) = 2021" by simp
  note th = save_sqlite_rewrites_references_only [OF out]
  from th have db: "snd (save_sqlite example_storage ''k'' example_db ''GNESTE'') = example_db"
    by blast
  from th len have l: "length (entries_table out) = 3" by simp
  from th len have "entry_price (entries_table out ! 0) = entry_price (entries example_db ! 0)"
    by simp
  with p0 have a: "entry_price (entries_table out ! 0) = Num 5" by simp
  from th len have "entry_year (entries_table out ! 2) = entry_year (entries example_db ! 2)"
    by simp
  with y2 have b: "entry_year (entries_table out ! 2) = 2021" by simp
  from out db l a b show ?thesis by blast
qed

subsection \<open>Files that cannot be read\<close>

lemma add_file_missing:
  "\<not> path_exists fs file_name \<Longrightarrow>
     add_file fs dk db file_name = Inl (Exception ''File not exist'', db)"
  by (simp add: add_file_def)

lemma add_file_unsupported:
  "path_exists fs file_name \<Longrightarrow> \<not> endswith file_name ''.csv'' \<Longrightarrow>
   \<not> endswith file_name ''.xlsx'' \<Longrightarrow>
     add_file fs dk db file_name = Inl (Exception ''File type not supported'', db)"
  by (simp add: add_file_def)

lemma add_files_append_Inr:
  "add_files fs dk db pre = Inr db1 \<Longrightarrow>
     add_files fs dk db (pre @ rest) = add_files fs dk db1 rest"
  by (induction pre arbitrary: db) (auto split: sum.splits)

lemma run_aborts:
  assumes "add_files fs dk DB_init pre = Inr db1"
    and "add_file fs dk db1 f = Inl (e, db2)"
  shows "run fs st dk (pre @ f # post) out_name = Inl e"
  using assms by (simp add: run_def add_files_append_Inr)

text \<open>
  Claim C6. \<^const>\<open>add_file\<close> raises on a path that does not exist, and on a path that exists
  and ends neither with \<^verbatim>\<open>.csv\<close> nor with \<^verbatim>\<open>.xlsx\<close>; in both cases the database at the
  raise is the database the call was given. Nothing catches an exception of
  \<^const>\<open>add_file\<close>: when the files before \<open>f\<close> were added and \<open>f\<close> raises, the run ends with that
  exception and no export.
\<close>

theorem add_file_fail_fast:
  "(\<not> path_exists fs f \<longrightarrow> add_file fs dk db f = Inl (Exception ''File not exist'', db)) \<and>
   (path_exists fs f \<and> \<not> endswith f ''.csv'' \<and> \<not> endswith f ''.xlsx'' \<longrightarrow>
      add_file fs dk db f = Inl (Exception ''File type not supported'', db)) \<and>
   (add_files fs dk DB_init pre = Inr db \<and> add_file fs dk db f = Inl (e, db') \<longrightarrow>
      run fs st dk (pre @ f # post) out_name = Inl e)"
  using add_file_missing [of fs f dk db] add_file_unsupported [of fs f dk db]
    run_aborts [of fs dk pre db f e db' st post out_name]
  by blast

lemma example_fs_facts:
  "\<not> path_exists example_fs ''nowhere.xlsx''"
  "path_exists example_fs ''data.json''"
  "path_exists example_fs ''data.xlsx''"
  "\<not> endswith ''data.json'' ''.csv''"
  "\<not> endswith ''data.json'' ''.xlsx''"
  "\<not> path_exists example_fs ''nowhere.json''"
  by (simp_all add: example_fs_def endswith_def)

lemma example_file_run:
  "add_files example_fs ''k'' DB_init [''data.xlsx''] = Inr example_db"
  by (simp add: add_file_def example_fs_def endswith_def example_db_run)

text \<open>
  The third and fourth scenarios of the specification: after the workbook has been added,
  a file that does not exist and a \<^verbatim>\<open>.json\<close> file each end the run without an export, the
  database being the one the workbook left.
\<close>

theorem add_file_fail_fast_witness:
  "\<not> path_exists example_fs ''nowhere.xlsx'' \<and>
   add_file example_fs ''k'' example_db ''nowhere.xlsx'' =
     Inl (Exception ''File not exist'', example_db) \<and>
   path_exists example_fs ''data.json'' \<and> \<not> endswith ''data.json'' ''.csv'' \<and>
   \<not> endswith ''data.json'' ''.xlsx'' \<and>
   add_file example_fs ''k'' example_db ''data.json'' =
     Inl (Exception ''File type not supported'', example_db) \<and>
   add_files example_fs ''k'' DB_init [''data.xlsx''] = Inr example_db \<and>
   run example_fs example_storage ''k'' ([''data.xlsx''] @ ''nowhere.xlsx'' # [''data.xlsx'']) ''GNESTE'' =
     Inl (Exception ''File not exist'') \<and>
   run example_fs example_storage ''k'' ([''data.xlsx''] @ ''data.json'' # []) ''GNESTE'' =
     Inl (Exception ''File type not supported'')"
proof -
  note a = add_file_fail_fast [of example_fs "''nowhere.xlsx''" "''k''" example_db
      "[''data.xlsx'']" "Exception ''File not exist''" example_db example_storage
      "[''data.xlsx'']" "''GNESTE''"]
  note b = add_file_fail_fast [of example_fs "''data.json''" "''k''" example_db
      "[''data.xlsx'']" "Exception ''File type not supported''" example_db example_storage
      "[]" "''GNESTE''"]
  from a example_fs_facts(1)
  have a1: "add_file example_fs ''k'' example_db ''nowhere.xlsx'' =
     Inl (Exception ''File not exist'', example_db)" by blast
  from b example_fs_facts(2,4,5)
  have b1: "add_file example_fs ''k'' example_db ''data.json'' =
     Inl (Exception ''File type not supported'', example_db)" by blast
  from a a1 example_file_run
  have a2: "run example_fs example_storage ''k'' ([''data.xlsx''] @ ''nowhere.xlsx'' # [''data.xlsx'']) ''GNESTE'' =
     Inl (Exception ''File not exist'')" by blast
  from b b1 example_file_run
  have b2: "run example_fs example_storage ''k'' ([''data.xlsx''] @ ''data.json'' # []) ''GNESTE'' =
     Inl (Exception ''File type not supported'')" by blast
  from example_fs_facts a1 b1 example_file_run a2 b2 show ?thesis by blast
qed

text \<open>
  Claim C10. On a path that does not exist \<^const>\<open>add_file\<close> raises the missing-file
  exception whatever the extension of the path; the exception of the format check is
  raised for existing paths only.
\<close>

theorem add_file_exists_before_format:
  "(\<not> path_exists fs f \<longrightarrow> add_file fs dk db f = Inl (Exception ''File not exist'', db)) \<and>
   (add_file fs dk db f = Inl (Exception ''File type not supported'', db') \<longrightarrow>
      path_exists fs f)"
proof -
  have "path_exists fs f" if "add_file fs dk db f = Inl (Exception ''File type not supported'', db')"
  proof (rule ccontr)
    assume "\<not> path_exists fs f"
    then have "add_file fs dk db f = Inl (Exception ''File not exist'', db)"
      by (rule add_file_missing)
    with that show False by simp
  qed
  with add_file_missing [of fs f dk db] show ?thesis by blast
qed

text \<open>A \<^verbatim>\<open>.json\<close> path that does not exist, and one that does.\<close>

theorem add_file_exists_before_format_witness:
  "\<not> path_exists example_fs ''nowhere.json'' \<and>
   add_file example_fs ''k'' DB_init ''nowhere.json'' =
     Inl (Exception ''File not exist'', DB_init) \<and>
   add_file example_fs ''k'' DB_init ''data.json'' =
     Inl (Exception ''File type not supported'', DB_init) \<and>
   path_exists example_fs ''data.json''"
proof -
  have j: "add_file example_fs ''k'' DB_init ''data.json'' =
     Inl (Exception ''File type not supported'', DB_init)"
    using example_fs_facts(2,4,5) by (rule add_file_unsupported)
  note a = add_file_exists_before_format [of example_fs "''nowhere.json''" "''k''" DB_init DB_init]
  note b = add_file_exists_before_format [of example_fs "''data.json''" "''k''" DB_init DB_init]
  from a example_fs_facts(6)
  have a1: "add_file example_fs ''k'' DB_init ''nowhere.json'' =
     Inl (Exception ''File not exist'', DB_init)" by blast
  from b j have b1: "path_exists example_fs ''data.json''" by blast
  from example_fs_facts(6) a1 j b1 show ?thesis by blast
qed

subsection \<open>One row\<close>

lemma valid_row_required:
  assumes "valid_row cols row"
  shows "\<exists>t c v. row_technology row = Inr t \<and> row_country row = Inr c \<and> row_variable row = Inr v"
    and "\<exists>s n c. row (Named ''Source'') = Some s \<and> row (Named ''Notes'') = Some n \<and>
           row (Named ''Currency'') = Some c"
  using assms
  by (auto simp: valid_row_def required_columns_def row_technology_def row_country_def
      row_variable_def getitem_def)

lemma row_entry_Inr:
  assumes "row (Named ''Source'') = Some s" "row (Named ''Notes'') = Some n"
    "row (Named ''Currency'') = Some c"
  shows "row_entry dk row t co v y p =
           Inr (Entry_init dk (Obj t) (Obj co) (Obj v) 0 0 s n c y p)"
  using assms by (simp add: row_entry_def getitem_def)

lemma year_entries_valid:
  assumes src: "row (Named ''Source'') = Some s" "row (Named ''Notes'') = Some n"
    "row (Named ''Currency'') = Some c"
    and cols: "list_all (year_column row) cols"
  shows "\<exists>fs. year_entries dk row t co v (years_of cols) = Inr fs \<and>
              length fs = populated_years cols row"
  using cols
proof (induction cols)
  case Nil
  show ?case by (simp add: populated_years_def)
next
  case (Cons l ls)
  then obtain fs where fs: "year_entries dk row t co v (years_of ls) = Inr fs"
    "length fs = populated_years ls row" by auto
  show ?case
  proof (cases l)
    case (Named x)
    with fs show ?thesis by (simp add: populated_years_def has_price_def)
  next
    case (Numeric r)
    with Cons.prems obtain p where p: "row (Numeric r) = Some p" "of_int (py_int r) = r"
      by (auto simp: year_column_def)
    show ?thesis
    proof (cases "isna p")
      case True
      with Numeric p fs show ?thesis
        by (simp add: getitem_def populated_years_def has_price_def)
    next
      case False
      with Numeric p fs show ?thesis
        by (simp add: getitem_def populated_years_def has_price_def row_entry_Inr [OF src])
    qed
  qed
qed

text \<open>
  Claim C1. For a well-formed row with \<open>K\<close> prices under the year columns, the body of the
  loop of \<^const>\<open>add_dataframe\<close> returns, and the database it returns is the one obtained by
  one \<^const>\<open>add_technology\<close>, one \<^const>\<open>add_country\<close>, one \<^const>\<open>add_variable\<close> and then
  \<^const>\<open>add_entry\<close> for each fact of a list of exactly \<open>K\<close> facts: the list of facts has grown
  by these \<open>K\<close> facts, and each dictionary is the old one with the candidate of the row
  stored at its key.
\<close>

theorem add_dataframe_row_counts:
  assumes "valid_row cols row"
  shows "\<exists>tech country var fs db'.
           row_technology row = Inr tech \<and> row_country row = Inr country \<and>
           row_variable row = Inr var \<and>
           add_dataframe_row dk cols db row = Inr db' \<and>
           db' = foldl add_entry (add_variable (add_country (add_technology db tech) country) var) fs \<and>
           length fs = populated_years cols row \<and>
           entries db' = entries db @ fs \<and>
           technologies db' = AList.update (Technology_key tech) tech (technologies db) \<and>
           countries db' = AList.update (Country_key country) country (countries db) \<and>
           variables db' = AList.update (Variable_key var) var (variables db)"
proof -
  from valid_row_required [OF assms] obtain t c v s n cu where
    r: "row_technology row = Inr t" "row_country row = Inr c" "row_variable row = Inr v" and
    src: "row (Named ''Source'') = Some s" "row (Named ''Notes'') = Some n"
      "row (Named ''Currency'') = Some cu"
    by blast
  from assms have "list_all (year_column row) cols" by (simp add: valid_row_def)
  from year_entries_valid [OF src this] obtain fs where
    fs: "year_entries dk row t c v (years_of cols) = Inr fs"
      "length fs = populated_years cols row" by blast
  define db' where "db' = append_entries (upsert_dims db t c v) fs"
  have run: "add_dataframe_row dk cols db row = Inr db'"
    by (simp add: add_dataframe_row_conv [OF r] fs db'_def)
  have fold: "db' = foldl add_entry (add_variable (add_country (add_technology db t) c) v) fs"
    by (simp add: db'_def foldl_add_entry upsert_dims_def)
  have fields: "entries db' = entries db @ fs"
    "technologies db' = AList.update (Technology_key t) t (technologies db)"
    "countries db' = AList.update (Country_key c) c (countries db)"
    "variables db' = AList.update (Variable_key v) v (variables db)"
    by (simp_all add: db'_def)
  from r run fold fs(2) fields show ?thesis by blast
qed

lemma example_rows_valid:
  "valid_row example_columns testland_row"
  "valid_row example_columns (testland_row(Numeric 2020 \<mapsto> Missing 5))"
  by (simp_all add: valid_row_def required_columns_def example_columns_def testland_row_def
      year_column_def py_int_def)

lemma example_rows_prices:
  "populated_years example_columns testland_row = 1"
  "populated_years example_columns (testland_row(Numeric 2020 \<mapsto> Missing 5)) = 0"
  by (simp_all add: populated_years_def has_price_def example_columns_def testland_row_def)

text \<open>
  The first scenario of the specification: one fact for Testland, for 2020; and no fact,
  with the three upserts all the same, once the price of 2020 is missing too.
\<close>

theorem add_dataframe_row_counts_witness:
  "valid_row example_columns testland_row \<and>
   valid_row example_columns (testland_row(Numeric 2020 \<mapsto> Missing 5)) \<and>
   (\<exists>db'. add_dataframe_row ''k'' example_columns DB_init testland_row = Inr db' \<and>
          length (entries db') = 1 \<and> length (technologies db') = 1 \<and>
          length (countries db') = 1 \<and> length (variables db') = 1) \<and>
   (\<exists>db'. add_dataframe_row ''k'' example_columns DB_init
            (testland_row(Numeric 2020 \<mapsto> Missing 5)) = Inr db' \<and>
          length (entries db') = 0 \<and> length (technologies db') = 1 \<and>
          length (countries db') = 1 \<and> length (variables db') = 1)"
proof -
  have init: "entries DB_init = []" "technologies DB_init = []" "countries DB_init = []"
    "variables DB_init = []"
    by (simp_all add: DB_init_def)
  from add_dataframe_row_counts [OF example_rows_valid(1), of "''k''" DB_init]
  obtain db' :: DB and fs :: "Entry list" where
    "add_dataframe_row ''k'' example_columns DB_init testland_row = Inr db'"
    "length fs = populated_years example_columns testland_row"
    "entries db' = entries DB_init @ fs"
    "length (technologies db') = 1" "length (countries db') = 1" "length (variables db') = 1"
    by (auto simp: init)
  then have a: "\<exists>db'. add_dataframe_row ''k'' example_columns DB_init testland_row = Inr db' \<and>
          length (entries db') = 1 \<and> length (technologies db') = 1 \<and>
          length (countries db') = 1 \<and> length (variables db') = 1"
    by (auto simp: init example_rows_prices)
  from add_dataframe_row_counts [OF example_rows_valid(2), of "''k''" DB_init]
  obtain db'' :: DB and gs :: "Entry list" where
    "add_dataframe_row ''k'' example_columns DB_init (testland_row(Numeric 2020 \<mapsto> Missing 5))
       = Inr db''"
    "length gs = populated_years example_columns (testland_row(Numeric 2020 \<mapsto> Missing 5))"
    "entries db'' = entries DB_init @ gs"
    "length (technologies db'') = 1" "length (countries db'') = 1" "length (variables db'') = 1"
    by (auto simp: init)
  then have b: "\<exists>db'. add_dataframe_row ''k'' example_columns DB_init
            (testland_row(Numeric 2020 \<mapsto> Missing 5)) = Inr db' \<and>
          length (entries db') = 0 \<and> length (technologies db') = 1 \<and>
          length (countries db') = 1 \<and> length (variables db') = 1"
    by (auto simp: init example_rows_prices)
  from example_rows_valid a b show ?thesis by blast
qed

subsection \<open>Referential integrity\<close>

lemma set_update_subset: "set (AList.update k v al) \<subseteq> insert (k, v) (set al)"
  by (induction al) auto

lemma keyed_update:
  assumes "\<forall>(k, x) \<in> set al. k = key x"
  shows "\<forall>(k, x) \<in> set (AList.update (key v) v al). k = key x"
proof
  fix p assume "p \<in> set (AList.update (key v) v al)"
  with set_update_subset [of "key v" v al] have "p = (key v, v) \<or> p \<in> set al" by blast
  then show "case p of (k, x) \<Rightarrow> k = key x"
  proof
    assume "p = (key v, v)"
    then show ?thesis by simp
  next
    assume "p \<in> set al"
    with assms show ?thesis by blast
  qed
qed

lemma keyed_upsert_dims:
  assumes "keyed db"
  shows "keyed (upsert_dims db t c v)"
proof -
  from assms have a:
    "\<forall>(k, x) \<in> set (technologies db). k = Technology_key x"
    "\<forall>(k, x) \<in> set (countries db). k = Country_key x"
    "\<forall>(k, x) \<in> set (variables db). k = Variable_key x"
    by (simp_all add: keyed_def)
  have
    "\<forall>(k, x) \<in> set (AList.update (Technology_key t) t (technologies db)). k = Technology_key x"
    "\<forall>(k, x) \<in> set (AList.update (Country_key c) c (countries db)). k = Country_key x"
    "\<forall>(k, x) \<in> set (AList.update (Variable_key v) v (variables db)). k = Variable_key x"
    by (rule keyed_update [OF a(1)], rule keyed_update [OF a(2)], rule keyed_update [OF a(3)])
  then show ?thesis by (simp add: keyed_def)
qed

lemma resolved_upsert_dims: "resolved db e \<Longrightarrow> resolved (upsert_dims db t c v) e"
  by (auto simp: resolved_def dom_update)

lemma resolved_append_entries: "resolved (append_entries db fs) e = resolved db e"
  by (simp add: resolved_def)

lemma keyed_append_entries: "keyed (append_entries db fs) = keyed db"
  by (simp add: keyed_def)

lemma year_entries_refs:
  assumes "year_entries dk row t c v ys = Inr fs \<or> year_entries dk row t c v ys = Inl (e, fs)"
    and "f \<in> set fs"
  shows "entry_technology f = Obj t \<and> entry_country f = Obj c \<and> entry_variable f = Obj v \<and>
         entry_key f = dk"
  using assms
proof (induction ys arbitrary: fs)
  case Nil
  then show ?case by simp
next
  case (Cons y ys)
  show ?case
  proof (cases "getitem row (Numeric (of_int y))")
    case (Inl x)
    with Cons.prems show ?thesis by auto
  next
    case (Inr p)
    show ?thesis
    proof (cases "isna p")
      case True
      with Inr Cons show ?thesis by simp
    next
      case False
      show ?thesis
      proof (cases "row_entry dk row t c v y p")
        case (Inl x)
        with \<open>getitem row (Numeric (of_int y)) = Inr p\<close> False Cons.prems show ?thesis by auto
      next
        case new: (Inr entry)
        then have entry: "entry_technology entry = Obj t \<and> entry_country entry = Obj c \<and>
            entry_variable entry = Obj v \<and> entry_key entry = dk"
          by (auto simp: row_entry_def Entry_init_def split: sum.splits)
        from Cons.prems(1) Inr False new obtain gs where
          gs: "fs = entry # gs"
            "year_entries dk row t c v ys = Inr gs \<or> year_entries dk row t c v ys = Inl (e, gs)"
          by (auto split: sum.splits)
        with Cons.prems(2) have "f = entry \<or> f \<in> set gs" by simp
        with entry Cons.IH [OF gs(2)] show ?thesis by blast
      qed
    qed
  qed
qed

lemma integrity_row_state:
  assumes inv: "integrity db"
    and fs: "year_entries dk row t c v ys = Inr fs \<or> year_entries dk row t c v ys = Inl (e, fs)"
  shows "integrity (append_entries (upsert_dims db t c v) fs)"
proof -
  let ?db = "upsert_dims db t c v"
  from inv have k: "keyed ?db" by (simp add: integrity_def keyed_upsert_dims)
  from inv have old: "\<forall>f \<in> set (entries db). resolved ?db f"
    by (simp add: integrity_def resolved_upsert_dims)
  have new: "resolved ?db f" if "f \<in> set fs" for f
    using year_entries_refs [OF fs that] by (simp add: resolved_def dom_update)
  from k old new show ?thesis
    by (auto simp: integrity_def keyed_append_entries resolved_append_entries)
qed

lemma integrity_row_Inr:
  assumes "integrity db" and "add_dataframe_row dk cols db row = Inr db'"
  shows "integrity db'"
proof -
  from assms(2) obtain t c v fs where
    fs: "year_entries dk row t c v (years_of cols) = Inr fs" and
    db': "db' = append_entries (upsert_dims db t c v) fs"
    by (rule add_dataframe_row_InrD)
  from fs have "year_entries dk row t c v (years_of cols) = Inr fs \<or>
      year_entries dk row t c v (years_of cols) = Inl (undefined, fs)" by simp
  from integrity_row_state [OF assms(1) this] db' show ?thesis by simp
qed

lemma integrity_row_Inl:
  assumes "integrity db" and "add_dataframe_row dk cols db row = Inl (e, db')"
  shows "integrity db'"
proof -
  from add_dataframe_row_InlD [OF assms(2)]
  consider "db' = db"
    | t c v fs where "year_entries dk row t c v (years_of cols) = Inl (e, fs)"
        "db' = append_entries (upsert_dims db t c v) fs"
    by blast
  then show ?thesis
  proof cases
    case 1
    with assms(1) show ?thesis by simp
  next
    case 2
    from 2(1) have "year_entries dk row t c v (years_of cols) = Inr fs \<or>
      year_entries dk row t c v (years_of cols) = Inl (e, fs)" by simp
    from integrity_row_state [OF assms(1) this] 2(2) show ?thesis by simp
  qed
qed

lemma integrity_rows_Inr:
  "integrity db \<Longrightarrow> add_rows dk cols db rs = Inr db' \<Longrightarrow> integrity db'"
proof (induction rs arbitrary: db)
  case Nil
  then show ?case by simp
next
  case (Cons r rs)
  from Cons.prems(2) obtain db1 where
    s: "add_dataframe_row dk cols db r = Inr db1" "add_rows dk cols db1 rs = Inr db'"
    by (auto split: sum.splits)
  from integrity_row_Inr [OF Cons.prems(1) s(1)] have "integrity db1" .
  from Cons.IH [OF this s(2)] show ?case .
qed

lemma integrity_rows_Inl:
  "integrity db \<Longrightarrow> add_rows dk cols db rs = Inl (e, db') \<Longrightarrow> integrity db'"
proof (induction rs arbitrary: db)
  case Nil
  then show ?case by simp
next
  case (Cons r rs)
  show ?case
  proof (cases "add_dataframe_row dk cols db r")
    case (Inl x)
    with Cons.prems(2) have "add_dataframe_row dk cols db r = Inl (e, db')" by simp
    from integrity_row_Inl [OF Cons.prems(1) this] show ?thesis .
  next
    case (Inr db1)
    with Cons.prems(2) have s: "add_rows dk cols db1 rs = Inl (e, db')" by simp
    from integrity_row_Inr [OF Cons.prems(1) Inr] have "integrity db1" .
    from Cons.IH [OF this s] show ?thesis .
  qed
qed

lemma integrity_init: "integrity DB_init"
  by (simp add: integrity_def keyed_def DB_init_def)

lemma reachable_integrity: "reachable dk db \<Longrightarrow> integrity db"
proof (induction rule: reachable.induct)
  case fresh
  show ?case by (rule integrity_init)
next
  case (returned db df db')
  from returned.hyps(2) have "add_rows dk (columns df) db (rows df) = Inr db'"
    by (simp add: add_dataframe_def)
  from integrity_rows_Inr [OF returned.IH this] show ?case .
next
  case (raised db df e db')
  from raised.hyps(2) have "add_rows dk (columns df) db (rows df) = Inl (e, db')"
    by (simp add: add_dataframe_def)
  from integrity_rows_Inl [OF raised.IH this] show ?case .
qed

lemma resolved_obj: "resolved db e \<Longrightarrow> obj_entry e"
  by (auto simp: resolved_def obj_entry_def)

lemma list_all2_right:
  "list_all2 P xs ys \<Longrightarrow> y \<in> set ys \<Longrightarrow> \<exists>x \<in> set xs. P x y"
  by (induction rule: list_all2_induct) auto

lemma key_in_table:
  assumes "\<forall>(k, x) \<in> set al. k = key x" and "key y \<in> fst ` set al"
  shows "\<exists>x \<in> set (map snd al). key x = key y"
proof -
  from assms(2) obtain x where x: "(key y, x) \<in> set al" by auto
  with assms(1) have "key y = key x" by blast
  moreover from x have "x \<in> set (map snd al)" by force
  ultimately show ?thesis by auto
qed

lemma exported_row_resolves:
  assumes "keyed db" and "resolved db e" and "export_entry dk e = Inr e'"
  shows "\<exists>t \<in> set (map snd (technologies db)). \<exists>c \<in> set (map snd (countries db)).
           \<exists>v \<in> set (map snd (variables db)).
           entry_technology e' = Key (tech_name t) \<and> entry_country e' = Key (country_ISO3 c) \<and>
           entry_variable e' = Key (var_name v)"
proof -
  from export_entry_InrD [OF assms(3)] obtain t c v where
    refs: "entry_technology e = Obj t" "entry_country e = Obj c" "entry_variable e = Obj v" and
    e': "entry_technology e' = Key (Technology_key t)" "entry_country e' = Key (Country_key c)"
      "entry_variable e' = Key (Variable_key v)"
    by (auto simp: Entry_init_def)
  from assms(2) refs have keys: "Technology_key t \<in> fst ` set (technologies db)"
    "Country_key c \<in> fst ` set (countries db)" "Variable_key v \<in> fst ` set (variables db)"
    by (auto simp: resolved_def)
  from assms(1) have k: "\<forall>(k, x) \<in> set (technologies db). k = Technology_key x"
    "\<forall>(k, x) \<in> set (countries db). k = Country_key x"
    "\<forall>(k, x) \<in> set (variables db). k = Variable_key x"
    by (simp_all add: keyed_def)
  from key_in_table [OF k(1) keys(1)] obtain t' where
    t': "t' \<in> set (map snd (technologies db))" "Technology_key t' = Technology_key t" by blast
  from key_in_table [OF k(2) keys(2)] obtain c' where
    c': "c' \<in> set (map snd (countries db))" "Country_key c' = Country_key c" by blast
  from key_in_table [OF k(3) keys(3)] obtain v' where
    v': "v' \<in> set (map snd (variables db))" "Variable_key v' = Variable_key v" by blast
  from e' t'(2) c'(2) v'(2) have
    "entry_technology e' = Key (tech_name t') \<and> entry_country e' = Key (country_ISO3 c') \<and>
     entry_variable e' = Key (var_name v')"
    by (simp add: Technology_key_def Country_key_def Variable_key_def)
  with t'(1) c'(1) v'(1) show ?thesis by blast
qed

lemma foreign_key_present:
  "k \<in> set col \<Longrightarrow> foreign_key (Key k) col = (\<not> isna k)"
  by (auto simp: foreign_key_def sql_eq_def list_ex_iff)

text \<open>
  Claim C2, as amended. In a database reached from the fresh one by calls of
  \<^const>\<open>add_dataframe\<close>, every fact refers to a technology, a country and a variable whose
  keys are keys of the three dictionaries. When \<^const>\<open>save_sqlite\<close> exports such a database,
  each row of the exported table of facts carries, in its three reference fields, the name
  of a row of the exported technology table, the ISO3 code of a row of the country table
  and the name of a row of the variable table; and each of the three resolves to a row of
  its table exactly when it is not missing.
\<close>

theorem referential_integrity:
  assumes "reachable dk db"
  shows "(\<forall>e \<in> set (entries db). resolved db e) \<and>
         (fst (save_sqlite st dk db file_name) = Inr out \<longrightarrow>
            (\<forall>e' \<in> set (entries_table out).
               \<exists>t \<in> set (tech_table out). \<exists>c \<in> set (country_table out).
               \<exists>v \<in> set (vars_table out).
                 entry_technology e' = Key (tech_name t) \<and>
                 entry_country e' = Key (country_ISO3 c) \<and>
                 entry_variable e' = Key (var_name v) \<and>
                 foreign_key (entry_technology e') (map tech_name (tech_table out)) =
                   (\<not> isna (tech_name t)) \<and>
                 foreign_key (entry_country e') (map country_ISO3 (country_table out)) =
                   (\<not> isna (country_ISO3 c)) \<and>
                 foreign_key (entry_variable e') (map var_name (vars_table out)) =
                   (\<not> isna (var_name v))))"
proof -
  from reachable_integrity [OF assms] have k: "keyed db" and
    r: "\<forall>e \<in> set (entries db). resolved db e"
    by (simp_all add: integrity_def)
  have "\<exists>t \<in> set (tech_table out). \<exists>c \<in> set (country_table out).
               \<exists>v \<in> set (vars_table out).
                 entry_technology e' = Key (tech_name t) \<and>
                 entry_country e' = Key (country_ISO3 c) \<and>
                 entry_variable e' = Key (var_name v) \<and>
                 foreign_key (entry_technology e') (map tech_name (tech_table out)) =
                   (\<not> isna (tech_name t)) \<and>
                 foreign_key (entry_country e') (map country_ISO3 (country_table out)) =
                   (\<not> isna (country_ISO3 c)) \<and>
                 foreign_key (entry_variable e') (map var_name (vars_table out)) =
                   (\<not> isna (var_name v))"
    if out: "fst (save_sqlite st dk db file_name) = Inr out"
      and e': "e' \<in> set (entries_table out)" for e'
  proof -
    note tabs = save_sqlite_InrD [OF out]
    from tabs have all2:
      "list_all2 (\<lambda>e e'. export_entry dk e = Inr e') (entries db) (entries_table out)"
      by (simp add: entries2_Inr)
    from list_all2_right [OF all2 e'] obtain e where
      e: "e \<in> set (entries db)" "export_entry dk e = Inr e'" by blast
    from r e(1) have "resolved db e" by blast
    from exported_row_resolves [OF k this e(2)] tabs obtain t c v where
      t: "t \<in> set (tech_table out)" "entry_technology e' = Key (tech_name t)" and
      c: "c \<in> set (country_table out)" "entry_country e' = Key (country_ISO3 c)" and
      v: "v \<in> set (vars_table out)" "entry_variable e' = Key (var_name v)"
      by auto
    from t(1) have "tech_name t \<in> set (map tech_name (tech_table out))" by simp
    from foreign_key_present [OF this] t(2)
    have ft: "foreign_key (entry_technology e') (map tech_name (tech_table out)) =
        (\<not> isna (tech_name t))" by simp
    from c(1) have "country_ISO3 c \<in> set (map country_ISO3 (country_table out))" by simp
    from foreign_key_present [OF this] c(2)
    have fc: "foreign_key (entry_country e') (map country_ISO3 (country_table out)) =
        (\<not> isna (country_ISO3 c))" by simp
    from v(1) have "var_name v \<in> set (map var_name (vars_table out))" by simp
    from foreign_key_present [OF this] v(2)
    have fv: "foreign_key (entry_variable e') (map var_name (vars_table out)) =
        (\<not> isna (var_name v))" by simp
    from t c v ft fc fv show ?thesis by blast
  qed
  with r show ?thesis by blast
qed

lemma example_db_reachable: "reachable ''k'' example_db"
  using reachable.fresh example_db_run by (rule reachable.returned)

lemma example_db_names:
  "list_all (\<lambda>t. \<not> isna (tech_name t)) (map snd (technologies example_db))"
  "list_all (\<lambda>c. \<not> isna (country_ISO3 c)) (map snd (countries example_db))"
  "list_all (\<lambda>v. \<not> isna (var_name v)) (map snd (variables example_db))"
  by (simp_all add: example_db_def add_dataframe_def example_frame_def example_columns_def
      add_dataframe_row_def row_technology_def row_country_def row_variable_def row_entry_def
      getitem_def testland_row_def second_row_def py_int_def add_entry_def DB_init_def
      add_technology_def add_country_def add_variable_def Country_init_def
      Technology_key_def Country_key_def Variable_key_def)

text \<open>
  The example database: its three facts resolve in the dictionaries, and in the tables of
  the export.
\<close>

theorem referential_integrity_witness:
  "reachable ''k'' example_db \<and> length (entries example_db) = 3 \<and>
   list_all (resolved example_db) (entries example_db) \<and>
   (\<exists>out. fst (save_sqlite example_storage ''k'' example_db ''GNESTE'') = Inr out \<and>
      length (entries_table out) = 3 \<and>
      list_all (\<lambda>e'. foreign_key (entry_technology e') (map tech_name (tech_table out)) \<and>
                      foreign_key (entry_country e') (map country_ISO3 (country_table out)) \<and>
                      foreign_key (entry_variable e') (map var_name (vars_table out)))
        (entries_table out))"
proof -
  from example_db_exports obtain out where
    out: "fst (save_sqlite example_storage ''k'' example_db ''GNESTE'') = Inr out" by blast
  note th = referential_integrity [OF example_db_reachable, where st = example_storage
      and file_name = "''GNESTE''" and out = out]
  from th have r: "list_all (resolved example_db) (entries example_db)"
    by (simp add: list_all_iff)
  note tabs = save_sqlite_InrD [OF out]
  from tabs example_db_names have names:
    "\<forall>t \<in> set (tech_table out). \<not> isna (tech_name t)"
    "\<forall>c \<in> set (country_table out). \<not> isna (country_ISO3 c)"
    "\<forall>v \<in> set (vars_table out). \<not> isna (var_name v)"
    by (simp_all add: list_all_iff)
  have fk: "foreign_key (entry_technology e') (map tech_name (tech_table out)) \<and>
            foreign_key (entry_country e') (map country_ISO3 (country_table out)) \<and>
            foreign_key (entry_variable e') (map var_name (vars_table out))"
    if "e' \<in> set (entries_table out)" for e'
  proof -
    from th out that obtain t c v where
      "t \<in> set (tech_table out)" "c \<in> set (country_table out)" "v \<in> set (vars_table out)"
      "foreign_key (entry_technology e') (map tech_name (tech_table out)) =
         (\<not> isna (tech_name t))"
      "foreign_key (entry_country e') (map country_ISO3 (country_table out)) =
         (\<not> isna (country_ISO3 c))"
      "foreign_key (entry_variable e') (map var_name (vars_table out)) =
         (\<not> isna (var_name v))"
      by blast
    with names show ?thesis by blast
  qed
  then have all: "list_all (\<lambda>e'. foreign_key (entry_technology e') (map tech_name (tech_table out)) \<and>
                      foreign_key (entry_country e') (map country_ISO3 (country_table out)) \<and>
                      foreign_key (entry_variable e') (map var_name (vars_table out)))
        (entries_table out)"
    by (simp add: list_all_iff)
  from tabs have "list_all2 (\<lambda>e e'. export_entry ''k'' e = Inr e') (entries example_db)
      (entries_table out)" by (simp add: entries2_Inr)
  from list_all2_lengthD [OF this] example_db_length
  have len: "length (entries_table out) = 3" by simp
  from out len all have ex: "\<exists>out. fst (save_sqlite example_storage ''k'' example_db ''GNESTE'') = Inr out \<and>
      length (entries_table out) = 3 \<and>
      list_all (\<lambda>e'. foreign_key (entry_technology e') (map tech_name (tech_table out)) \<and>
                      foreign_key (entry_country e') (map country_ISO3 (country_table out)) \<and>
                      foreign_key (entry_variable e') (map var_name (vars_table out)))
        (entries_table out)" by blast
  show ?thesis
    by (intro conjI) (rule example_db_reachable example_db_length r ex)+
qed

lemma blank_out_run:
  "fst (save_sqlite example_storage ''k'' blank_db ''GNESTE'') = Inr blank_out"
  by (simp add: blank_out_def save_sqlite_def to_sql_def example_storage_def int64_def
      endswith_def export_entry_def ref_key_def
      blank_db_def add_dataframe_def blank_frame_def example_columns_def
      add_dataframe_row_def row_technology_def row_country_def row_variable_def row_entry_def
      getitem_def blank_row1_def blank_row2_def py_int_def add_entry_def DB_init_def
      add_technology_def add_country_def add_variable_def Entry_init_def Country_init_def
      Technology_key_def Country_key_def Variable_key_def)

lemma blank_out_tables:
  "map entry_technology (entries_table blank_out) =
     [Key (Missing 10), Key (Missing 10), Key (Missing 11), Key (Missing 11)]"
  "map tech_name (tech_table blank_out) = [Missing 10, Missing 11]"
  by (simp_all add: blank_out_def save_sqlite_def to_sql_def example_storage_def int64_def
      endswith_def export_entry_def ref_key_def
      blank_db_def add_dataframe_def blank_frame_def example_columns_def
      add_dataframe_row_def row_technology_def row_country_def row_variable_def row_entry_def
      getitem_def blank_row1_def blank_row2_def py_int_def add_entry_def DB_init_def
      add_technology_def add_country_def add_variable_def Entry_init_def Country_init_def
      Technology_key_def Country_key_def Variable_key_def)

text \<open>
  Claim C2 as it stands fails when a key is missing. The frame with the blank technology
  column is added and exported; the four exported facts hold the missing marker in the
  field \<^verbatim>\<open>technology\<close>, which is written as \<^verbatim>\<open>NULL\<close>, and so do the two rows of the
  technology table in the column \<^verbatim>\<open>name\<close>: the foreign key of the first exported fact
  (as of the others) resolves to no row of the technology table.
\<close>

theorem null_foreign_key_counterexample:
  "add_dataframe ''k'' DB_init blank_frame = Inr blank_db \<and>
   fst (save_sqlite example_storage ''k'' blank_db ''GNESTE'') = Inr blank_out \<and>
   map entry_technology (entries_table blank_out) =
     [Key (Missing 10), Key (Missing 10), Key (Missing 11), Key (Missing 11)] \<and>
   map tech_name (tech_table blank_out) = [Missing 10, Missing 11] \<and>
   \<not> foreign_key (entry_technology (hd (entries_table blank_out)))
       (map tech_name (tech_table blank_out))"
proof -
  from blank_out_tables(1) have "entries_table blank_out \<noteq> []" by auto
  then have "entry_technology (hd (entries_table blank_out)) =
      hd (map entry_technology (entries_table blank_out))" by (simp add: hd_map)
  with blank_out_tables(1) have h: "entry_technology (hd (entries_table blank_out)) =
      Key (Missing 10)" by simp
  have "\<not> foreign_key (entry_technology (hd (entries_table blank_out)))
       (map tech_name (tech_table blank_out))"
    by (simp add: h blank_out_tables(2) foreign_key_def sql_eq_def)
  with blank_db_run blank_out_run blank_out_tables show ?thesis by simp
qed

subsection \<open>The identity token\<close>

lemma reachable_keys:
  "reachable dk db \<Longrightarrow> \<forall>e \<in> set (entries db). Entry_key e = dk"
proof (induction rule: reachable.induct)
  case fresh
  show ?case by (simp add: DB_init_def)
next
  case (returned db df db')
  have rows: "\<forall>e \<in> set (entries d). Entry_key e = dk \<Longrightarrow>
      add_rows dk cols d rs = Inr d' \<Longrightarrow> \<forall>e \<in> set (entries d'). Entry_key e = dk"
    for cols d rs d'
  proof (induction rs arbitrary: d)
    case Nil
    then show ?case by simp
  next
    case (Cons r rs)
    from Cons.prems(2) obtain d1 where
      s: "add_dataframe_row dk cols d r = Inr d1" "add_rows dk cols d1 rs = Inr d'"
      by (auto split: sum.splits)
    from s(1) obtain t c v fs where
      fs: "year_entries dk r t c v (years_of cols) = Inr fs"
        "d1 = append_entries (upsert_dims d t c v) fs"
      by (rule add_dataframe_row_InrD)
    from fs(1) have "year_entries dk r t c v (years_of cols) = Inr fs \<or>
      year_entries dk r t c v (years_of cols) = Inl (undefined, fs)" by simp
    from year_entries_refs [OF this] have "\<forall>f \<in> set fs. Entry_key f = dk"
      by (simp add: Entry_key_def)
    with Cons.prems(1) fs(2) have "\<forall>e \<in> set (entries d1). Entry_key e = dk" by auto
    from Cons.IH [OF this s(2)] show ?case .
  qed
  from returned.hyps(2) have "add_rows dk (columns df) db (rows df) = Inr db'"
    by (simp add: add_dataframe_def)
  from rows [OF returned.IH this] show ?case .
next
  case (raised db df e db')
  have rows: "\<forall>e \<in> set (entries d). Entry_key e = dk \<Longrightarrow>
      add_rows dk cols d rs = Inl (x, d') \<Longrightarrow> \<forall>e \<in> set (entries d'). Entry_key e = dk"
    for cols d rs x d'
  proof (induction rs arbitrary: d)
    case Nil
    then show ?case by simp
  next
    case (Cons r rs)
    have step: "\<forall>e \<in> set (entries d1). Entry_key e = dk"
      if "year_entries dk r t c v (years_of cols) = Inr fs \<or>
          year_entries dk r t c v (years_of cols) = Inl (y, fs)"
        "d1 = append_entries (upsert_dims d t c v) fs" for t c v fs y d1
    proof -
      from year_entries_refs [OF that(1)] have "\<forall>f \<in> set fs. Entry_key f = dk"
        by (simp add: Entry_key_def)
      with Cons.prems(1) that(2) show ?thesis by auto
    qed
    show ?case
    proof (cases "add_dataframe_row dk cols d r")
      case (Inl z)
      with Cons.prems(2) have "add_dataframe_row dk cols d r = Inl (x, d')" by simp
      from add_dataframe_row_InlD [OF this] Cons.prems(1) step show ?thesis by blast
    next
      case (Inr d1)
      then obtain t c v fs where
        fs: "year_entries dk r t c v (years_of cols) = Inr fs"
          "d1 = append_entries (upsert_dims d t c v) fs"
        by (rule add_dataframe_row_InrD)
      from fs(1) have "year_entries dk r t c v (years_of cols) = Inr fs \<or>
        year_entries dk r t c v (years_of cols) = Inl (undefined, fs)" by simp
      from step [OF this fs(2)] have d1: "\<forall>e \<in> set (entries d1). Entry_key e = dk" .
      from Cons.prems(2) Inr have "add_rows dk cols d1 rs = Inl (x, d')" by simp
      from Cons.IH [OF d1 this] show ?thesis .
    qed
  qed
  from raised.hyps(2) have "add_rows dk (columns df) db (rows df) = Inl (e, db')"
    by (simp add: add_dataframe_def)
  from rows [OF raised.IH this] show ?case .
qed

lemma example_db_distinct: "distinct (map entry_price (entries example_db))"
  by (simp only: example_db_prices) simp

text \<open>
  Claim C5 fails on the code. The default of \<^verbatim>\<open>_key\<close> is evaluated once, when the class is
  defined, and no construction passes \<^verbatim>\<open>_key\<close>: the three facts of the example
  frame are three different facts with one and the same identity token, the token of every
  fact of every reachable database (\<open>reachable_keys\<close>).
\<close>

theorem Entry_key_shared:
  "add_dataframe ''k'' DB_init example_frame = Inr example_db \<and>
   length (entries example_db) = 3 \<and> distinct (entries example_db) \<and>
   map Entry_key (entries example_db) = [''k'', ''k'', ''k'']"
proof -
  from example_db_distinct have d: "distinct (entries example_db)"
    by (simp add: distinct_map)
  have "map Entry_key (entries example_db) = replicate (length (entries example_db)) ''k''"
    using reachable_keys [OF example_db_reachable]
    by (simp add: map_replicate_const [symmetric] cong: map_cong)
  then have "map Entry_key (entries example_db) = [''k'', ''k'', ''k'']"
    by (simp add: example_db_length numeral_3_eq_3)
  with example_db_run example_db_length d show ?thesis by simp
qed

subsection \<open>The order of the facts\<close>

lemma entries_DB_init [simp]: "entries DB_init = []"
  by (simp add: DB_init_def)

lemma add_dataframe_row_facts:
  assumes "add_dataframe_row dk cols db row = Inr db'"
  shows "entries db' = entries db @ row_facts dk cols row"
    and "\<exists>d. add_dataframe_row dk cols db2 row = Inr d"
proof -
  from assms obtain t c v fs where
    r: "row_technology row = Inr t" "row_country row = Inr c" "row_variable row = Inr v" and
    fs: "year_entries dk row t c v (years_of cols) = Inr fs" and
    db': "db' = append_entries (upsert_dims db t c v) fs"
    by (rule add_dataframe_row_InrD)
  have other: "add_dataframe_row dk cols d0 row = Inr (append_entries (upsert_dims d0 t c v) fs)"
    for d0
    by (simp add: add_dataframe_row_conv [OF r] fs)
  from other [of DB_init] have "row_facts dk cols row = fs"
    by (simp add: row_facts_def facts_of_def)
  with db' show "entries db' = entries db @ row_facts dk cols row" by simp
  from other [of db2] show "\<exists>d. add_dataframe_row dk cols db2 row = Inr d" by blast
qed

lemma add_rows_facts:
  "add_rows dk cols db rs = Inr db' \<Longrightarrow>
     entries db' = entries db @ concat (map (row_facts dk cols) rs)"
proof (induction rs arbitrary: db)
  case Nil
  then show ?case by simp
next
  case (Cons r rs)
  from Cons.prems obtain db1 where
    s: "add_dataframe_row dk cols db r = Inr db1" "add_rows dk cols db1 rs = Inr db'"
    by (auto split: sum.splits)
  from add_dataframe_row_facts(1) [OF s(1)] Cons.IH [OF s(2)] show ?case by simp
qed

lemma add_rows_any_db:
  "add_rows dk cols db rs = Inr db' \<Longrightarrow> \<exists>d. add_rows dk cols db2 rs = Inr d"
proof (induction rs arbitrary: db db2)
  case Nil
  show ?case by simp
next
  case (Cons r rs)
  from Cons.prems obtain db1 where
    s: "add_dataframe_row dk cols db r = Inr db1" "add_rows dk cols db1 rs = Inr db'"
    by (auto split: sum.splits)
  from add_dataframe_row_facts(2) [OF s(1)] obtain d1 where
    d1: "add_dataframe_row dk cols db2 r = Inr d1" by blast
  from Cons.IH [OF s(2)] obtain d where "add_rows dk cols d1 rs = Inr d" by blast
  with d1 show ?case by simp
qed

lemma add_dataframe_facts:
  assumes "add_dataframe dk db df = Inr db'"
  shows "entries db' = entries db @ concat (map (row_facts dk (columns df)) (rows df))"
    and "entries db' = entries db @ frame_facts dk df"
proof -
  from assms have run: "add_rows dk (columns df) db (rows df) = Inr db'"
    by (simp add: add_dataframe_def)
  from add_rows_facts [OF run]
  show a: "entries db' = entries db @ concat (map (row_facts dk (columns df)) (rows df))" .
  from add_rows_any_db [OF run] obtain d where
    d: "add_rows dk (columns df) DB_init (rows df) = Inr d" by blast
  from add_rows_facts [OF d] d have
    "frame_facts dk df = concat (map (row_facts dk (columns df)) (rows df))"
    by (simp add: frame_facts_def facts_of_def add_dataframe_def)
  with a show "entries db' = entries db @ frame_facts dk df" by simp
qed

lemma add_file_InrD:
  assumes "add_file fs dk db f = Inr db'"
  shows "\<exists>df. add_dataframe dk db df = Inr db' \<and>
              (\<forall>d. add_file fs dk d f = add_dataframe dk d df)"
proof -
  from assms have ex: "path_exists fs f"
    by (auto simp: add_file_def split: if_splits)
  show ?thesis
  proof (cases "endswith f ''.csv''")
    case True
    with assms ex obtain df where df: "read_csv fs f = Inr df" "add_dataframe dk db df = Inr db'"
      by (auto simp: add_file_def split: sum.splits)
    from True ex df(1) have "\<forall>d. add_file fs dk d f = add_dataframe dk d df"
      by (simp add: add_file_def)
    with df(2) show ?thesis by blast
  next
    case False
    with assms ex have x: "endswith f ''.xlsx''"
      by (auto simp: add_file_def split: if_splits)
    with False assms ex obtain df where
      df: "read_excel fs f = Inr df" "add_dataframe dk db df = Inr db'"
      by (auto simp: add_file_def split: sum.splits)
    from False x ex df(1) have "\<forall>d. add_file fs dk d f = add_dataframe dk d df"
      by (simp add: add_file_def)
    with df(2) show ?thesis by blast
  qed
qed

lemma add_file_facts:
  assumes "add_file fs dk db f = Inr db'"
  shows "entries db' = entries db @ file_facts fs dk f"
proof -
  from add_file_InrD [OF assms] obtain df where
    df: "add_dataframe dk db df = Inr db'" "\<forall>d. add_file fs dk d f = add_dataframe dk d df"
    by blast
  from df(2) have "file_facts fs dk f = frame_facts dk df"
    by (simp add: file_facts_def frame_facts_def)
  with add_dataframe_facts(2) [OF df(1)] show ?thesis by simp
qed

lemma add_files_facts:
  "add_files fs dk db files = Inr db' \<Longrightarrow>
     entries db' = entries db @ concat (map (file_facts fs dk) files)"
proof (induction files arbitrary: db)
  case Nil
  then show ?case by simp
next
  case (Cons f files)
  from Cons.prems obtain db1 where
    s: "add_file fs dk db f = Inr db1" "add_files fs dk db1 files = Inr db'"
    by (auto split: sum.splits)
  from add_file_facts [OF s(1)] Cons.IH [OF s(2)] show ?case by simp
qed

lemma year_entries_years:
  assumes src: "row (Named ''Source'') = Some s" "row (Named ''Notes'') = Some n"
    "row (Named ''Currency'') = Some c"
    and cols: "list_all (year_column row) cols"
  shows "\<exists>fs. year_entries dk row t co v (years_of cols) = Inr fs \<and>
              map entry_year fs = years_of (filter (has_price row) cols)"
  using cols
proof (induction cols)
  case Nil
  show ?case by simp
next
  case (Cons l ls)
  then obtain fs where fs: "year_entries dk row t co v (years_of ls) = Inr fs"
    "map entry_year fs = years_of (filter (has_price row) ls)" by auto
  show ?case
  proof (cases l)
    case (Named x)
    then have "\<not> has_price row l" by (simp add: has_price_def)
    with Named fs show ?thesis by simp
  next
    case (Numeric r)
    with Cons.prems obtain p where p: "row (Numeric r) = Some p" "of_int (py_int r) = r"
      by (auto simp: year_column_def)
    from Numeric p(1) have hp: "has_price row l = (\<not> isna p)" by (simp add: has_price_def)
    show ?thesis
    proof (cases "isna p")
      case True
      with Numeric p fs hp show ?thesis
        by (simp add: getitem_def)
    next
      case False
      with Numeric p fs hp show ?thesis
        by (simp add: getitem_def row_entry_Inr [OF src] Entry_init_def)
    qed
  qed
qed

lemma row_facts_years:
  assumes "valid_row cols row"
  shows "map entry_year (row_facts dk cols row) = years_of (filter (has_price row) cols)"
proof -
  from valid_row_required [OF assms] obtain t c v s n cu where
    r: "row_technology row = Inr t" "row_country row = Inr c" "row_variable row = Inr v" and
    src: "row (Named ''Source'') = Some s" "row (Named ''Notes'') = Some n"
      "row (Named ''Currency'') = Some cu"
    by blast
  from assms have "list_all (year_column row) cols" by (simp add: valid_row_def)
  from year_entries_years [OF src this] obtain fs where
    fs: "year_entries dk row t c v (years_of cols) = Inr fs"
      "map entry_year fs = years_of (filter (has_price row) cols)" by blast
  have "row_facts dk cols row = fs"
    by (simp add: row_facts_def facts_of_def add_dataframe_row_conv [OF r] fs(1))
  with fs(2) show ?thesis by simp
qed

lemma run_InrD:
  assumes "run fs st dk files out_name = Inr out"
  shows "\<exists>db. add_files fs dk DB_init files = Inr db \<and>
              fst (save_sqlite st dk db out_name) = Inr out"
  using assms by (auto simp: run_def split: sum.splits prod.splits)

text \<open>
  Claim C7. \<^const>\<open>add_entry\<close> is total and puts the fact at the end of the list. When
  \<^const>\<open>save_sqlite\<close> exports, the rows of the table of facts are the rewritten facts of the
  list, position by position. A frame that is added appends the facts of its rows, row
  after row; a well-formed row yields its facts in the order of the year columns of the
  frame, one for each column with a price; the files of a run append their facts file
  after file, so that the exported table of a run is, position by position, the
  concatenation of the facts of its files: nothing is dropped, merged or moved.
\<close>

theorem facts_in_arrival_order:
  "entries (add_entry db e) = entries db @ [e] \<and>
   (fst (save_sqlite st dk db file_name) = Inr out \<longrightarrow>
      list_all2 (\<lambda>e e'. export_entry dk e = Inr e') (entries db) (entries_table out)) \<and>
   (add_dataframe dk db df = Inr db' \<longrightarrow>
      entries db' = entries db @ concat (map (row_facts dk (columns df)) (rows df))) \<and>
   (valid_row cols row \<longrightarrow>
      map entry_year (row_facts dk cols row) = years_of (filter (has_price row) cols)) \<and>
   (add_files fs dk db files = Inr db'' \<longrightarrow>
      entries db'' = entries db @ concat (map (file_facts fs dk) files)) \<and>
   (run fs st dk files file_name = Inr out' \<longrightarrow>
      list_all2 (\<lambda>e e'. export_entry dk e = Inr e')
        (concat (map (file_facts fs dk) files)) (entries_table out'))"
proof -
  have a: "entries (add_entry db e) = entries db @ [e]"
    by (simp add: add_entry_def)
  have b: "list_all2 (\<lambda>e e'. export_entry dk e = Inr e') (entries d) (entries_table o')"
    if "fst (save_sqlite st dk d file_name) = Inr o'" for d o'
    using save_sqlite_InrD [OF that] by (simp add: entries2_Inr)
  have c: "add_dataframe dk db df = Inr db' \<longrightarrow>
      entries db' = entries db @ concat (map (row_facts dk (columns df)) (rows df))"
    using add_dataframe_facts(1) by blast
  have d: "valid_row cols row \<longrightarrow>
      map entry_year (row_facts dk cols row) = years_of (filter (has_price row) cols)"
    using row_facts_years by blast
  have e: "add_files fs dk db files = Inr db'' \<longrightarrow>
      entries db'' = entries db @ concat (map (file_facts fs dk) files)"
    using add_files_facts by blast
  have f: "list_all2 (\<lambda>e e'. export_entry dk e = Inr e')
        (concat (map (file_facts fs dk) files)) (entries_table out')"
    if "run fs st dk files file_name = Inr out'"
  proof -
    from run_InrD [OF that] obtain d where
      d: "add_files fs dk DB_init files = Inr d" "fst (save_sqlite st dk d file_name) = Inr out'"
      by blast
    from add_files_facts [OF d(1)] have "entries d = concat (map (file_facts fs dk) files)"
      by simp
    with b [OF d(2)] show ?thesis by simp
  qed
  from a b [of db out] c d e f show ?thesis by blast
qed

lemma add_rows_dims:
  assumes "add_rows dk cols db rs = Inr db'"
    and "countries db \<noteq> []" "variables db \<noteq> []" "technologies db \<noteq> []"
  shows "countries db' \<noteq> [] \<and> variables db' \<noteq> [] \<and> technologies db' \<noteq> []"
  using assms
proof (induction rs arbitrary: db)
  case Nil
  then show ?case by simp
next
  case (Cons r rs)
  from Cons.prems(1) obtain db1 where
    s: "add_dataframe_row dk cols db r = Inr db1" "add_rows dk cols db1 rs = Inr db'"
    by (auto split: sum.splits)
  from s(1) obtain t c v fs where
    db1: "db1 = append_entries (upsert_dims db t c v) fs"
    by (rule add_dataframe_row_InrD)
  then have "countries db1 \<noteq> []" "variables db1 \<noteq> []" "technologies db1 \<noteq> []"
    by simp_all
  from Cons.IH [OF s(2) this] show ?case .
qed

lemma example_file_twice:
  "\<exists>db2. add_dataframe ''k'' example_db example_frame = Inr db2 \<and>
         add_files example_fs ''k'' DB_init [''data.xlsx'', ''data.xlsx''] = Inr db2"
proof -
  from example_db_run have "add_rows ''k'' (columns example_frame) DB_init (rows example_frame)
      = Inr example_db" by (simp add: add_dataframe_def)
  from add_rows_any_db [OF this] obtain db2 where
    "add_rows ''k'' (columns example_frame) example_db (rows example_frame) = Inr db2" by blast
  then have db2: "add_dataframe ''k'' example_db example_frame = Inr db2"
    by (simp add: add_dataframe_def)
  have f: "add_file example_fs ''k'' d ''data.xlsx'' = add_dataframe ''k'' d example_frame" for d
    by (simp add: add_file_def example_fs_def endswith_def)
  from db2 example_db_run have
    "add_files example_fs ''k'' DB_init [''data.xlsx'', ''data.xlsx''] = Inr db2"
    by (simp add: f)
  with db2 show ?thesis by blast
qed

lemma example_file_facts: "file_facts example_fs ''k'' ''data.xlsx'' = entries example_db"
proof -
  have "add_file example_fs ''k'' DB_init ''data.xlsx'' = Inr example_db"
    by (simp add: add_file_def example_fs_def endswith_def example_db_run)
  then show ?thesis by (simp add: file_facts_def facts_of_def)
qed

lemma example_second_row:
  "valid_row example_columns second_row"
  "years_of (filter (has_price second_row) example_columns) = [2020, 2021]"
  by (simp_all add: valid_row_def required_columns_def example_columns_def second_row_def
      year_column_def py_int_def has_price_def)

text \<open>
  The workbook added twice and exported to a fresh destination: its three facts, then the
  same three facts again, in the database and in the exported table.
\<close>

theorem facts_in_arrival_order_witness:
  "valid_row example_columns second_row \<and>
   map entry_year (row_facts ''k'' example_columns second_row) = [2020, 2021] \<and>
   (\<exists>db2 out. add_dataframe ''k'' example_db example_frame = Inr db2 \<and>
      add_files example_fs ''k'' DB_init [''data.xlsx'', ''data.xlsx''] = Inr db2 \<and>
      fst (save_sqlite example_storage ''k'' db2 ''GNESTE'') = Inr out \<and>
      run example_fs example_storage ''k'' [''data.xlsx'', ''data.xlsx''] ''GNESTE'' = Inr out \<and>
      map entry_year (entries db2) = [2020, 2020, 2021, 2020, 2020, 2021] \<and>
      map entry_year (entries_table out) = [2020, 2020, 2021, 2020, 2020, 2021])"
proof -
  from example_file_twice obtain db2 where
    frame: "add_dataframe ''k'' example_db example_frame = Inr db2" and
    files: "add_files example_fs ''k'' DB_init [''data.xlsx'', ''data.xlsx''] = Inr db2"
    by blast
  note th = facts_in_arrival_order [where dk = "''k''" and fs = example_fs
      and st = example_storage
      and files = "[''data.xlsx'', ''data.xlsx'']" and file_name = "''GNESTE''"
      and cols = example_columns and row = second_row]
  note one = th [where db = DB_init and db'' = db2]
  note two = th [where db = example_db and df = example_frame and db' = db2]
  from one example_second_row have
    y: "map entry_year (row_facts ''k'' example_columns second_row) = [2020, 2021]" by simp
  from one files have "entries db2 = concat (map (file_facts example_fs ''k'')
      [''data.xlsx'', ''data.xlsx''])" by simp
  then have e2: "map entry_year (entries db2) = [2020, 2020, 2021, 2020, 2020, 2021]"
    by (simp add: example_file_facts example_db_years)
  from two frame have "entries db2 = entries example_db @
      concat (map (row_facts ''k'' (columns example_frame)) (rows example_frame))" by blast
  have "reachable ''k'' db2"
    using example_db_reachable frame by (rule reachable.returned)
  from reachable_integrity [OF this] have "\<forall>e \<in> set (entries db2). resolved db2 e"
    by (simp add: integrity_def)
  then have obj: "list_all obj_entry (entries db2)"
    using resolved_obj by (auto simp: list_all_iff)
  from frame have "add_rows ''k'' (columns example_frame) example_db (rows example_frame) = Inr db2"
    by (simp add: add_dataframe_def)
  from add_rows_dims [OF this example_db_dims]
  have dims: "countries db2 \<noteq> []" "variables db2 \<noteq> []" "technologies db2 \<noteq> []"
    by simp_all
  from e2 have ne: "entries db2 \<noteq> []" by auto
  have yrs: "list_all int64 (map entry_year (entries db2))"
    by (simp only: e2) (simp add: int64_def)
  from save_sqlite_succeeds [OF obj refl example_storage_fresh(1)
          example_storage_fresh(2) example_storage_fresh(2) example_storage_fresh(2)
          example_storage_fresh(2) dims ne yrs]
  obtain out where
    out: "fst (save_sqlite example_storage ''k'' db2 ''GNESTE'') = Inr out" by blast
  from files out have
    run: "run example_fs example_storage ''k'' [''data.xlsx'', ''data.xlsx''] ''GNESTE'' = Inr out"
    by (simp add: run_def)
  note three = th [where db = db2 and out = out]
  from three out have
    "list_all2 (\<lambda>e e'. export_entry ''k'' e = Inr e') (entries db2) (entries_table out)"
    by blast
  from exported_years [OF this] e2 have
    t: "map entry_year (entries_table out) = [2020, 2020, 2021, 2020, 2020, 2021]" by simp
  from one [where out' = out] run have "list_all2 (\<lambda>e e'. export_entry ''k'' e = Inr e')
      (concat (map (file_facts example_fs ''k'') [''data.xlsx'', ''data.xlsx'']))
      (entries_table out)" by blast
  have "\<exists>db2 out. add_dataframe ''k'' example_db example_frame = Inr db2 \<and>
      add_files example_fs ''k'' DB_init [''data.xlsx'', ''data.xlsx''] = Inr db2 \<and>
      fst (save_sqlite example_storage ''k'' db2 ''GNESTE'') = Inr out \<and>
      run example_fs example_storage ''k'' [''data.xlsx'', ''data.xlsx''] ''GNESTE'' = Inr out \<and>
      map entry_year (entries db2) = [2020, 2020, 2021, 2020, 2020, 2021] \<and>
      map entry_year (entries_table out) = [2020, 2020, 2021, 2020, 2020, 2021]"
  proof (intro exI conjI)
    show "add_dataframe ''k'' example_db example_frame = Inr db2" by (rule frame)
    show "add_files example_fs ''k'' DB_init [''data.xlsx'', ''data.xlsx''] = Inr db2"
      by (rule files)
    show "fst (save_sqlite example_storage ''k'' db2 ''GNESTE'') = Inr out" by (rule out)
    show "run example_fs example_storage ''k'' [''data.xlsx'', ''data.xlsx''] ''GNESTE'' = Inr out"
      by (rule run)
    show "map entry_year (entries db2) = [2020, 2020, 2021, 2020, 2020, 2021]" by (rule e2)
    show "map entry_year (entries_table out) = [2020, 2020, 2021, 2020, 2020, 2021]"
      by (rule t)
  qed
  with example_second_row(1) y show ?thesis by (intro conjI)
qed

end
